theory Spec2Isabelle
  imports Main "HOL-Library.Product_Lexorder"
begin

section \<open>Python dictionaries with optional entries\<close>

text \<open>
  The metadata documents of the external resolver are Python dicts read with
  \<^verbatim>\<open>d.get(k)\<close>, \<^verbatim>\<open>d.get(k, default)\<close> and \<^verbatim>\<open>d[k]\<close>. An entry is
  therefore in one of three states: the key is missing, the key holds \<^verbatim>\<open>None\<close>, or the
  key holds a value. A Python value that may be \<^verbatim>\<open>None\<close> is an \<open>option\<close>.
  Numbers are modelled as \<open>int\<close>: the code only compares them and tests them for zero.
\<close>

datatype 'a field = Absent | Null | Val 'a

fun dict_get :: "'a field \<Rightarrow> 'a option" where
  "dict_get Absent = None"
| "dict_get Null = None"
| "dict_get (Val v) = Some v"

fun dict_get_default :: "'a field \<Rightarrow> 'a \<Rightarrow> 'a option" where
  "dict_get_default Absent d = Some d"
| "dict_get_default Null d = None"
| "dict_get_default (Val v) d = Some v"

fun of_py :: "'a option \<Rightarrow> 'a field" where
  "of_py None = Null"
| "of_py (Some v) = Val v"

text \<open>Truthiness of an optional number and Python's \<^verbatim>\<open>a or b\<close> on such values.\<close>

fun truthy :: "int option \<Rightarrow> bool" where
  "truthy None = False"
| "truthy (Some n) = (n \<noteq> 0)"

definition py_or :: "int option \<Rightarrow> int option \<Rightarrow> int option" where
  "py_or a b = (if truthy a then a else b)"

text \<open>\<^verbatim>\<open>a or 0\<close>: the result is always a number.\<close>

fun or_zero :: "int option \<Rightarrow> int" where
  "or_zero None = 0"
| "or_zero (Some n) = (if n \<noteq> 0 then n else 0)"

text \<open>A text between single quotes, as \<^verbatim>\<open>str\<close> of a \<^verbatim>\<open>KeyError\<close> prints its key.\<close>

definition quoted :: "string \<Rightarrow> string" where
  "quoted t = [CHR 0x27] @ t @ [CHR 0x27]"

section \<open>Data model\<close>

text \<open>A candidate format, one element of \<^verbatim>\<open>info['formats']\<close>.\<close>

record fmt =
  url :: "string field"
  ext :: "string field"
  acodec :: "string field"
  vcodec :: "string field"
  abr :: "int field"
  tbr :: "int field"
  asr :: "int field"
  filesize :: "int field"
  height :: "int field"
  width :: "int field"
  fps :: "int field"
  protocol :: "string field"
  format_note :: "string field"

text \<open>
  The metadata document returned by \<^verbatim>\<open>ydl.extract_info\<close>. Its formats are a list
  of dicts; a document without the entry has the empty list, as
  \<^verbatim>\<open>info.get('formats', [])\<close> reads it.
\<close>

record info =
  title :: "string field"
  duration :: "int field"
  formats :: "fmt list"

text \<open>
  What one call of the external resolver does: it raises an exception with a message,
  returns nothing (\<^verbatim>\<open>None\<close>, as it does under \<^verbatim>\<open>ignoreerrors\<close>, or any other
  answer that \<^verbatim>\<open>not info\<close> rejects), or returns a document.
\<close>

datatype probe = Raises string | NoInfo | Info info

text \<open>The options bundle handed to the resolver (the entries that vary between calls).\<close>

record ydl_opts =
  o_format :: "string option"
  o_cookiefile :: "string option"
  o_proxy :: "string option"
  o_force_generic_extractor :: bool
  o_postprocessors :: "string list"
  o_socket_timeout :: nat

text \<open>The \<^verbatim>\<open>'format'\<close> entry of a result.\<close>

record audio_out =
  a_ext :: "string option"
  a_abr :: "int option"
  a_asr :: "int option"
  a_vcodec :: "string option"
  a_acodec :: "string option"
  a_filesize :: "int option"
  a_protocol :: "string option"
  a_format_note :: "string option"

record video_out =
  v_ext :: "string option"
  v_height :: "int option"
  v_width :: "int option"
  v_fps :: "int option"
  v_filesize :: "int option"
  v_format_note :: "string option"

datatype out_format = AudioOut audio_out | VideoOut video_out

text \<open>
  A resolution result, the dict returned by the downloader. Error results carry only
  \<^verbatim>\<open>status\<close>, \<^verbatim>\<open>message\<close> and sometimes \<^verbatim>\<open>video_id\<close>; the purely descriptive
  entries of a video result (thumbnail, channel, counters, upload date) are copied from
  the document unchanged and are left out.
\<close>

record result =
  status :: string
  message :: "string field"
  video_id :: "string field"
  r_title :: "string field"
  r_duration :: "int field"
  stream_url :: "string field"
  r_type :: "string field"
  r_format :: "out_format field"
  method_used :: "string field"

definition error_result :: "string \<Rightarrow> result" where
  "error_result m =
     \<lparr>status = ''error'', message = Val m, video_id = Absent, r_title = Absent,
      r_duration = Absent, stream_url = Absent, r_type = Absent, r_format = Absent,
      method_used = Absent\<rparr>"

section \<open>Configuration and environment\<close>

record config =
  COOKIES_FILE :: "string option"
  PROXY :: "string option"
  RATE_LIMIT_WINDOW :: int
  MAX_REQUESTS_PER_MINUTE :: nat
  CACHE_TTL :: int
  MAX_CACHE_SIZE :: nat

text \<open>
  The collaborators the code reaches through narrow interfaces: the file system test
  \<^verbatim>\<open>os.path.exists\<close>, the helpers of \<^verbatim>\<open>youtube_utils\<close>, and the external resolver.
  The resolver may answer differently each time it is asked, so it also receives the
  number of calls made before this one.
\<close>

record env =
  cfg :: config
  path_exists :: "string \<Rightarrow> bool"
  extract_video_id :: "string \<Rightarrow> string option"
  is_valid_youtube_url :: "string \<Rightarrow> bool"
  extract_info :: "nat \<Rightarrow> ydl_opts \<Rightarrow> string \<Rightarrow> probe"

text \<open>A cache entry: key, value and creation time.\<close>

type_synonym cache_entry = "string \<times> result \<times> int"

text \<open>
  The mutable state of the process: the methods announced as tried, the calls made to
  the resolver, the result cache with its counters, and the rate windows.
\<close>

record state =
  attempts :: "string list"
  calls :: "(ydl_opts \<times> string) list"
  cache :: "cache_entry list"
  hits :: nat
  misses :: nat
  requests :: "string \<Rightarrow> int list option"

text \<open>\<^verbatim>\<open>config.COOKIES_FILE and os.path.exists(config.COOKIES_FILE)\<close>\<close>

definition cookies_file_present :: "env \<Rightarrow> bool" where
  "cookies_file_present e =
     (case COOKIES_FILE (cfg e) of None \<Rightarrow> False | Some p \<Rightarrow> p \<noteq> [] \<and> path_exists e p)"

text \<open>\<^verbatim>\<open>if config.PROXY\<close>: a proxy that is set and not the empty string.\<close>

definition proxy_opt :: "env \<Rightarrow> string option" where
  "proxy_opt e = (case PROXY (cfg e) of None \<Rightarrow> None | Some p \<Rightarrow> if p \<noteq> [] then Some p else None)"

section \<open>Audio extraction\<close>

text \<open>The options bundle of \<^verbatim>\<open>_try_audio_method\<close>.\<close>

definition audio_opts :: "env \<Rightarrow> string \<Rightarrow> bool \<Rightarrow> ydl_opts" where
  "audio_opts e method_name use_cookies =
     \<lparr>o_format =
        (if method_name = ''cookies_method'' then Some ''bestaudio/best''
         else if method_name = ''mixed_format_method'' then Some ''best[acodec!=none]''
         else if method_name = ''dash_method'' then Some ''bestaudio[protocol=dash]/bestaudio''
         else if method_name = ''generic_method'' then Some ''best''
         else None),
      o_cookiefile =
        (if use_cookies \<and> cookies_file_present e then COOKIES_FILE (cfg e) else None),
      o_proxy = proxy_opt e,
      o_force_generic_extractor = (method_name = ''generic_method''),
      o_postprocessors =
        (if method_name = ''mixed_format_method'' then [''FFmpegExtractAudio''] else []),
      o_socket_timeout = 30\<rparr>"

text \<open>The test of the loop that collects \<^verbatim>\<open>suitable_formats\<close>, branch by branch.\<close>

definition suitable_audio :: "string \<Rightarrow> fmt \<Rightarrow> bool" where
  "suitable_audio method_name f =
     (if method_name = ''mixed_format_method'' \<and> dict_get (acodec f) \<noteq> Some ''none'' then True
      else if dict_get (acodec f) \<noteq> Some ''none''
              \<and> (dict_get (vcodec f) = Some ''none'' \<or> method_name \<noteq> ''mixed_format_method'')
      then True
      else False)"

text \<open>The sort key of the audio candidates.\<close>

definition audio_key :: "fmt \<Rightarrow> int \<times> int \<times> int" where
  "audio_key x =
     (or_zero (py_or (dict_get_default (abr x) 0) (dict_get_default (tbr x) 0)),
      or_zero (dict_get_default (asr x) 0),
      or_zero (dict_get_default (filesize x) 0))"

text \<open>
  \<^verbatim>\<open>list.sort(key=k, reverse=True)\<close>: a stable sort in descending order, which
  keeps elements with equal keys in their original order. It is the stable ascending
  sort of the reversed list, reversed.
\<close>

definition sort_reverse :: "('a \<Rightarrow> 'k::linorder) \<Rightarrow> 'a list \<Rightarrow> 'a list" where
  "sort_reverse k xs = rev (sort_key k (rev xs))"

text \<open>The selection inside \<^verbatim>\<open>_try_audio_method\<close>: filter, sort, take the first.\<close>

definition select_audio :: "string \<Rightarrow> fmt list \<Rightarrow> fmt option" where
  "select_audio method_name fs =
     (let suitable_formats = filter (suitable_audio method_name) fs
      in if suitable_formats = [] then None
         else Some (hd (sort_reverse audio_key suitable_formats)))"

definition audio_format_out :: "fmt \<Rightarrow> audio_out" where
  "audio_format_out best_format =
     \<lparr>a_ext = dict_get_default (ext best_format) ''m4a'',
      a_abr = dict_get_default (abr best_format) 128,
      a_asr = dict_get_default (asr best_format) 44100,
      a_vcodec = dict_get_default (vcodec best_format) ''none'',
      a_acodec = dict_get_default (acodec best_format) ''none'',
      a_filesize = dict_get (filesize best_format),
      a_protocol = dict_get_default (protocol best_format) '''',
      a_format_note = dict_get_default (format_note best_format) ''''\<rparr>"

text \<open>
  What \<^verbatim>\<open>_try_audio_method\<close> makes of the resolver's answer. Every exception is
  caught and turned into an error result: the resolver's own, and the
  \<^verbatim>\<open>KeyError\<close> of \<^verbatim>\<open>best_format['url']\<close> when the chosen format has no URL.
\<close>

definition audio_result :: "string option \<Rightarrow> string \<Rightarrow> probe \<Rightarrow> result" where
  "audio_result vid method_name p =
     (case p of
        Raises m \<Rightarrow> error_result (method_name @ '': '' @ m)
      | NoInfo \<Rightarrow> error_result ''No video info found''
      | Info i \<Rightarrow>
          (case select_audio method_name (formats i) of
             None \<Rightarrow> error_result (''No suitable formats in '' @ method_name)
           | Some best_format \<Rightarrow>
               (case url best_format of
                  Absent \<Rightarrow> error_result (method_name @ '': '' @ quoted ''url'')
                | u \<Rightarrow>
                    \<lparr>status = ''success'', message = Absent, video_id = of_py vid,
                     r_title = of_py (dict_get_default (title i) ''Unknown Title''),
                     r_duration = of_py (dict_get_default (duration i) 0),
                     stream_url = u, r_type = Val ''audio'',
                     r_format = Val (AudioOut (audio_format_out best_format)),
                     method_used = Val method_name\<rparr>)))"

text \<open>
  \<^verbatim>\<open>_try_audio_method\<close>: announce the method, build the options, call the resolver
  once, and interpret its answer.
\<close>

definition try_audio_method ::
  "env \<Rightarrow> string \<Rightarrow> string option \<Rightarrow> string \<Rightarrow> bool \<Rightarrow> state \<Rightarrow> result \<times> state" where
  "try_audio_method e u vid method_name use_cookies s =
     (let opts = audio_opts e method_name use_cookies;
          p = extract_info e (length (calls s)) opts u
      in (audio_result vid method_name p,
          s\<lparr>attempts := attempts s @ [method_name], calls := calls s @ [(opts, u)]\<rparr>))"

text \<open>
  \<^verbatim>\<open>get_audio_stream\<close>, methods 2 to 4: each one runs only when the one before it
  did not succeed, and the result of the last one is returned as it is.
\<close>

definition audio_fallbacks :: "env \<Rightarrow> string \<Rightarrow> string option \<Rightarrow> state \<Rightarrow> result \<times> state" where
  "audio_fallbacks e u vid s =
     (let (r2, s2) = try_audio_method e u vid ''mixed_format_method'' False s
      in if status r2 = ''success'' then (r2, s2)
         else
           (let (r3, s3) = try_audio_method e u vid ''dash_method'' False s2
            in if status r3 = ''success'' then (r3, s3)
               else try_audio_method e u vid ''generic_method'' False s3))"

text \<open>\<^verbatim>\<open>get_audio_stream\<close>: method 1 runs only behind its guard.\<close>

definition get_audio_stream :: "env \<Rightarrow> string \<Rightarrow> bool \<Rightarrow> state \<Rightarrow> result \<times> state" where
  "get_audio_stream e u use_cookies s =
     (let vid = extract_video_id e u
      in if use_cookies \<and> cookies_file_present e
         then (let (r1, s1) = try_audio_method e u vid ''cookies_method'' True s
               in if status r1 = ''success'' then (r1, s1)
                  else audio_fallbacks e u vid s1)
         else audio_fallbacks e u vid s)"

section \<open>Result cache\<close>

text \<open>
  Modelled from the spec: the cache object of \<^verbatim>\<open>utils\<close> (\<^verbatim>\<open>cache.get\<close>,
  \<^verbatim>\<open>cache.set\<close>), whose source is not part of the repository files at hand. A lookup
  misses when the key is absent or the entry is older than the time to live, and an
  expired entry is evicted by the lookup that finds it. An insertion beyond the maximum
  entry count first evicts the entry inserted earliest. The callers never pass a time to
  live, so the configured one applies. The cache here holds the results of the resolution
  pipeline; the documents that the info and search endpoints keep under keys of their own
  are not part of it.
\<close>

definition cache_get :: "env \<Rightarrow> int \<Rightarrow> string \<Rightarrow> state \<Rightarrow> result option \<times> state" where
  "cache_get e now k s =
     (case map_of (cache s) k of
        None \<Rightarrow> (None, s\<lparr>misses := misses s + 1\<rparr>)
      | Some (v, created_at) \<Rightarrow>
          if now - created_at > CACHE_TTL (cfg e)
          then (None, s\<lparr>cache := filter (\<lambda>en. fst en \<noteq> k) (cache s), misses := misses s + 1\<rparr>)
          else (Some v, s\<lparr>hits := hits s + 1\<rparr>))"

definition cache_set :: "env \<Rightarrow> int \<Rightarrow> string \<Rightarrow> result \<Rightarrow> state \<Rightarrow> state" where
  "cache_set e now k v s =
     (if k \<in> fst ` set (cache s)
      then s\<lparr>cache := map (\<lambda>en. if fst en = k then (k, v, now) else en) (cache s)\<rparr>
      else s\<lparr>cache :=
               (if length (cache s) \<ge> MAX_CACHE_SIZE (cfg e) then tl (cache s) else cache s)
               @ [(k, v, now)]\<rparr>)"

section \<open>Video extraction and the cached entry point\<close>

text \<open>\<^verbatim>\<open>get_ydl_options\<close>: the format filter hint of each quality tier.\<close>

definition get_ydl_options :: "env \<Rightarrow> string \<Rightarrow> string \<Rightarrow> ydl_opts" where
  "get_ydl_options e video_type quality =
     \<lparr>o_format =
        (if video_type = ''audio'' then Some ''best[acodec!=none]''
         else if video_type = ''video'' then
           (if quality = ''low'' then Some ''best[height<=360]''
            else if quality = ''medium'' then Some ''best[height<=480]''
            else if quality = ''high'' then Some ''best[height<=720]''
            else Some ''best[height<=1080]/best'')
         else None),
      o_cookiefile = (if cookies_file_present e then COOKIES_FILE (cfg e) else None),
      o_proxy = proxy_opt e,
      o_force_generic_extractor = False,
      o_postprocessors = [],
      o_socket_timeout = 60\<rparr>"

definition video_key :: "fmt \<Rightarrow> int \<times> int \<times> int" where
  "video_key x =
     (or_zero (dict_get_default (height x) 0),
      or_zero (dict_get_default (width x) 0),
      or_zero (dict_get_default (fps x) 0))"

text \<open>The selection of \<^verbatim>\<open>get_stream_info\<close> for a video: it does not read the quality.\<close>

definition select_video :: "fmt list \<Rightarrow> fmt option" where
  "select_video fs =
     (let video_formats = filter (\<lambda>f. dict_get (vcodec f) \<noteq> Some ''none'') fs
      in if video_formats \<noteq> [] then Some (hd (sort_reverse video_key video_formats))
         else None)"

definition video_format_out :: "fmt \<Rightarrow> video_out" where
  "video_format_out best_video =
     \<lparr>v_ext = dict_get_default (ext best_video) ''mp4'',
      v_height = dict_get (height best_video),
      v_width = dict_get (width best_video),
      v_fps = dict_get (fps best_video),
      v_filesize = dict_get (filesize best_video),
      v_format_note = dict_get_default (format_note best_video) ''''\<rparr>"

text \<open>The handler of \<^verbatim>\<open>get_stream_info\<close> for every exception.\<close>

definition stream_info_error :: "env \<Rightarrow> string \<Rightarrow> string \<Rightarrow> result" where
  "stream_info_error e u m =
     (error_result m)
       \<lparr>video_id :=
          Val (case extract_video_id e u of
                 None \<Rightarrow> ''unknown''
               | Some v \<Rightarrow> if v \<noteq> [] then v else ''unknown'')\<rparr>"

definition video_result :: "env \<Rightarrow> string \<Rightarrow> string \<Rightarrow> probe \<Rightarrow> result" where
  "video_result e u vid p =
     (case p of
        Raises m \<Rightarrow> stream_info_error e u m
      | NoInfo \<Rightarrow> stream_info_error e u ''Could not extract video info''
      | Info i \<Rightarrow>
          (case select_video (formats i) of
             None \<Rightarrow> stream_info_error e u ''No suitable video format found''
           | Some best_video \<Rightarrow>
               (case url best_video of
                  Absent \<Rightarrow> stream_info_error e u (quoted ''url'')
                | su \<Rightarrow>
                    \<lparr>status = ''success'', message = Absent, video_id = Val vid,
                     r_title = of_py (dict_get_default (title i) ''Unknown Title''),
                     r_duration = of_py (dict_get_default (duration i) 0),
                     stream_url = su, r_type = Val ''video'',
                     r_format = Val (VideoOut (video_format_out best_video)),
                     method_used = Absent\<rparr>)))"

text \<open>
  \<^verbatim>\<open>get_stream_info\<close>: validate, look the key up, resolve on a miss, and store the
  result when its status is success. The lookup and the store read the clock \<open>now\<close>.
\<close>

definition get_stream_info ::
  "env \<Rightarrow> int \<Rightarrow> string \<Rightarrow> string \<Rightarrow> string \<Rightarrow> state \<Rightarrow> result \<times> state" where
  "get_stream_info e now u video_type quality s =
     (case extract_video_id e u of
        None \<Rightarrow> (stream_info_error e u ''Invalid YouTube URL'', s)
      | Some vid \<Rightarrow>
          if vid = [] then (stream_info_error e u ''Invalid YouTube URL'', s)
          else
            (let cache_key = vid @ '':'' @ video_type @ '':'' @ quality;
                 (cached_data, s0) = cache_get e now cache_key s
             in case cached_data of
                  Some r \<Rightarrow> (r, s0)
                | None \<Rightarrow>
                    (let (r, s1) =
                           (if video_type = ''audio'' then get_audio_stream e u True s0
                            else
                              (let opts = get_ydl_options e video_type quality;
                                   p = extract_info e (length (calls s0)) opts u
                               in (video_result e u vid p,
                                   s0\<lparr>calls := calls s0 @ [(opts, u)]\<rparr>)))
                     in if status r = ''success'' then (r, cache_set e now cache_key r s1)
                        else (r, s1))))"

section \<open>The audio endpoint\<close>

datatype response = Redirect "string field" "(string \<times> string) list" | HTTPException nat string

text \<open>\<^verbatim>\<open>str.lower\<close> on the ASCII letters, and the substring test \<^verbatim>\<open>needle in s\<close>.\<close>

definition lower_char :: "char \<Rightarrow> char" where
  "lower_char c =
     (let n = (of_char c :: nat) in if 65 \<le> n \<and> n \<le> 90 then char_of (n + 32) else c)"

definition lower :: "string \<Rightarrow> string" where
  "lower s = map lower_char s"

fun contains :: "string \<Rightarrow> string \<Rightarrow> bool" where
  "contains needle [] = (needle = [])"
| "contains needle (c # cs) = (take (length needle) (c # cs) = needle \<or> contains needle cs)"

text \<open>\<^verbatim>\<open>f"{video_id}"\<close> for an id that may be \<^verbatim>\<open>None\<close>.\<close>

fun str_of :: "string option \<Rightarrow> string" where
  "str_of None = ''None''"
| "str_of (Some v) = v"

text \<open>
  \<^verbatim>\<open>result.get('message', default)\<close> as text. Every error result carries its
  message as a text, so the null case does not arise; it is printed as an f-string
  prints it.
\<close>

fun message_or :: "string field \<Rightarrow> string \<Rightarrow> string" where
  "message_or Absent d = d"
| "message_or Null d = ''None''"
| "message_or (Val m) d = m"

text \<open>
  The header dict of \<^verbatim>\<open>stream_audio\<close>. Its entries are evaluated in order. The
  content type lowers the extension of the reported format, which fails on a null
  extension; the last entry calls \<^verbatim>\<open>hashlib.md5\<close>, and the module never imports
  \<^verbatim>\<open>hashlib\<close>, so building the dict raises \<^verbatim>\<open>NameError\<close> at the latest there.
  The value is the text of the exception; no result yields a finished dict.
\<close>

fun format_ext :: "out_format \<Rightarrow> string option" where
  "format_ext (AudioOut a) = a_ext a"
| "format_ext (VideoOut v) = v_ext v"

definition audio_headers :: "result \<Rightarrow> string + (string \<times> string) list" where
  "audio_headers r =
     (case r_format r of
        Absent \<Rightarrow> Inl (''name '' @ quoted ''hashlib'' @ '' is not defined'')
      | Null \<Rightarrow> Inl (quoted ''NoneType'' @ '' object has no attribute '' @ quoted ''get'')
      | Val f \<Rightarrow>
          (case format_ext f of
             None \<Rightarrow> Inl (quoted ''NoneType'' @ '' object has no attribute '' @ quoted ''lower'')
           | Some x \<Rightarrow> Inl (''name '' @ quoted ''hashlib'' @ '' is not defined'')))"

text \<open>
  \<^verbatim>\<open>stream_audio\<close>, first step: unless a refresh is forced, the cache is looked up
  under the audio key, and the cached result is used only when its status is success;
  in every other case the audio methods run.
\<close>

definition cached_or_resolved ::
  "env \<Rightarrow> int \<Rightarrow> string \<Rightarrow> bool \<Rightarrow> state \<Rightarrow> result \<times> state" where
  "cached_or_resolved e now u force_refresh s =
     (let vid = extract_video_id e u;
          cache_key = ''audio:'' @ str_of vid
      in if \<not> force_refresh
         then (let (cached_result, s') = cache_get e now cache_key s
               in case cached_result of
                    Some r \<Rightarrow>
                      if status r = ''success'' then (r, s')
                      else get_audio_stream e u True s'
                  | None \<Rightarrow> get_audio_stream e u True s')
         else get_audio_stream e u True s)"

text \<open>
  Second step: a failure whose message mentions cookies is retried once without them.
\<close>

definition retried_without_cookies :: "env \<Rightarrow> string \<Rightarrow> result \<times> state \<Rightarrow> result \<times> state" where
  "retried_without_cookies e u rs =
     (if status (fst rs) \<noteq> ''success''
         \<and> contains ''cookies'' (lower (message_or (message (fst rs)) []))
      then get_audio_stream e u False (snd rs)
      else rs)"

text \<open>
  \<^verbatim>\<open>stream_audio\<close>: validate, resolve through the two steps above, answer a failure
  with status 500; otherwise read \<^verbatim>\<open>result['stream_url']\<close> (a \<^verbatim>\<open>KeyError\<close> when the
  result has no such entry), build the response, and store the result after the response
  has been built, and only when its status is success. Every exception on the way is
  answered with status 500 and its text.
\<close>

definition stream_audio :: "env \<Rightarrow> int \<Rightarrow> string \<Rightarrow> bool \<Rightarrow> state \<Rightarrow> response \<times> state" where
  "stream_audio e now u force_refresh s =
     (if \<not> is_valid_youtube_url e u then (HTTPException 400 ''Invalid YouTube URL'', s)
      else
        (let (r1, s1) = retried_without_cookies e u (cached_or_resolved e now u force_refresh s)
         in if status r1 \<noteq> ''success''
            then (HTTPException 500
                    (''Audio extraction failed: '' @ message_or (message r1) ''Unknown error''
                     @ ''. Video may be age-restricted or region-locked. ''
                     @ ''Try adding cookies.txt file.''), s1)
            else if stream_url r1 = Absent
            then (HTTPException 500 (''Audio streaming error: '' @ quoted ''stream_url''), s1)
            else
              (case audio_headers r1 of
                 Inl exn \<Rightarrow> (HTTPException 500 (''Audio streaming error: '' @ exn), s1)
               | Inr hs \<Rightarrow>
                   (Redirect (stream_url r1) hs,
                    if status r1 = ''success''
                    then cache_set e now (''audio:'' @ str_of (extract_video_id e u)) r1 s1
                    else s1))))"

section \<open>Admission control\<close>

text \<open>
  Modelled from the spec: \<^verbatim>\<open>rate_limiter.check_limit\<close> of \<^verbatim>\<open>utils\<close>, whose source
  is not part of the repository files at hand. Each check drops the timestamps older
  than \<open>now - window\<close>; when the remaining count has reached the maximum it rejects
  without recording, otherwise it appends \<open>now\<close> and admits. A client never seen before
  has no timestamps.
\<close>

definition check_limit :: "env \<Rightarrow> int \<Rightarrow> string \<Rightarrow> state \<Rightarrow> bool \<times> state" where
  "check_limit e now client_key s =
     (let ts = (case requests s client_key of None \<Rightarrow> [] | Some l \<Rightarrow> l);
          kept = filter (\<lambda>t. \<not> t < now - RATE_LIMIT_WINDOW (cfg e)) ts
      in if length kept \<ge> MAX_REQUESTS_PER_MINUTE (cfg e)
         then (False, s\<lparr>requests := (requests s)(client_key \<mapsto> kept)\<rparr>)
         else (True, s\<lparr>requests := (requests s)(client_key \<mapsto> kept @ [now])\<rparr>))"

text \<open>
  \<^verbatim>\<open>rate_limit_middleware\<close>: a rejected request is answered with status 429 and the
  handler does not run.
\<close>

definition rate_limit_middleware ::
  "env \<Rightarrow> int \<Rightarrow> string option \<Rightarrow> (state \<Rightarrow> response \<times> state) \<Rightarrow> state \<Rightarrow> response \<times> state" where
  "rate_limit_middleware e now client call_next s =
     (let client_ip = (case client of Some h \<Rightarrow> h | None \<Rightarrow> ''unknown'');
          (ok, s') = check_limit e now client_ip s
      in if \<not> ok then (HTTPException 429 ''Rate limit exceeded'', s')
         else call_next s')"

text \<open>A run of checks by one client at the given instants, oldest first.\<close>

fun check_all :: "env \<Rightarrow> string \<Rightarrow> int list \<Rightarrow> state \<Rightarrow> bool list \<times> state" where
  "check_all e client_key [] s = ([], s)"
| "check_all e client_key (t # ts) s =
     (let (b, s') = check_limit e t client_key s;
          (bs, s'') = check_all e client_key ts s'
      in (b # bs, s''))"

section \<open>Auxiliary definitions for the statements\<close>

text \<open>
  The result method \<open>method_name\<close> produces when its call to the resolver is call number
  \<open>n\<close>: what \<^verbatim>\<open>_try_audio_method\<close> returns, without the state.
\<close>

definition method_outcome :: "env \<Rightarrow> string \<Rightarrow> string \<Rightarrow> bool \<Rightarrow> nat \<Rightarrow> result" where
  "method_outcome e u method_name use_cookies n =
     audio_result (extract_video_id e u) method_name
       (extract_info e n (audio_opts e method_name use_cookies) u)"

text \<open>
  The declared order of the audio methods, each with the \<^verbatim>\<open>use_cookies\<close> keyword
  it is called with. Method 1 is part of the order only behind its guard.
\<close>

definition audio_method_order :: "env \<Rightarrow> bool \<Rightarrow> (string \<times> bool) list" where
  "audio_method_order e use_cookies =
     (if use_cookies \<and> cookies_file_present e then [(''cookies_method'', True)] else [])
     @ [(''mixed_format_method'', False), (''dash_method'', False), (''generic_method'', False)]"

text \<open>
  The fallback chain as the specification words it: an ordered list of methods, tried
  one after the other, stopping at the first success.
\<close>

fun run_methods ::
  "env \<Rightarrow> string \<Rightarrow> string \<times> bool \<Rightarrow> (string \<times> bool) list \<Rightarrow> state \<Rightarrow> result \<times> state" where
  "run_methods e u (m, c) [] s = try_audio_method e u (extract_video_id e u) m c s"
| "run_methods e u (m, c) (n # ns) s =
     (let (r, s') = try_audio_method e u (extract_video_id e u) m c s
      in if status r = ''success'' then (r, s') else run_methods e u n ns s')"

text \<open>The result of method number \<open>j\<close> of the declared order, for a chain that starts at call \<open>n\<close>.\<close>

definition chain_outcome :: "env \<Rightarrow> string \<Rightarrow> bool \<Rightarrow> nat \<Rightarrow> nat \<Rightarrow> result" where
  "chain_outcome e u use_cookies n j =
     (let mc = audio_method_order e use_cookies ! j
      in method_outcome e u (fst mc) (snd mc) (n + j))"

text \<open>
  The first element with the greatest key, scanning from the left with \<open>b\<close> as the
  best so far: a later element replaces it only when its key is strictly greater.
\<close>

fun first_max :: "('a \<Rightarrow> 'k::linorder) \<Rightarrow> 'a \<Rightarrow> 'a list \<Rightarrow> 'a" where
  "first_max k b [] = b"
| "first_max k b (x # xs) = first_max k (if k b < k x then x else b) xs"

subsection \<open>Ranking keys\<close>

text \<open>
  The ranking key as the claim words it: the bitrate, or the total bitrate when the
  bitrate is absent; then the sample rate; then the file size; a missing number counts
  as zero.
\<close>

definition claimed_audio_key :: "fmt \<Rightarrow> int \<times> int \<times> int" where
  "claimed_audio_key x =
     ((case dict_get (abr x) of
         Some b \<Rightarrow> b
       | None \<Rightarrow> (case dict_get (tbr x) of Some t \<Rightarrow> t | None \<Rightarrow> 0)),
      (case dict_get (asr x) of Some r \<Rightarrow> r | None \<Rightarrow> 0),
      (case dict_get (filesize x) of Some z \<Rightarrow> z | None \<Rightarrow> 0))"

text \<open>The number an entry contributes to the ranking: zero when absent, null or zero.\<close>

fun rank_num :: "int field \<Rightarrow> int" where
  "rank_num (Val n) = n"
| "rank_num Absent = 0"
| "rank_num Null = 0"

definition amended_audio_key :: "fmt \<Rightarrow> int \<times> int \<times> int" where
  "amended_audio_key x =
     ((if rank_num (abr x) \<noteq> 0 then rank_num (abr x) else rank_num (tbr x)),
      rank_num (asr x), rank_num (filesize x))"

subsection \<open>Concrete scenarios\<close>

text \<open>The state of a freshly started process.\<close>

definition empty_state :: state where
  "empty_state =
     \<lparr>attempts = [], calls = [], cache = [], hits = 0, misses = 0, requests = (\<lambda>c. None)\<rparr>"

text \<open>
  Scenario A: the cookie method finds no candidates, the mixed-format method finds two,
  every other call fails.
\<close>

definition scenario_fmt :: "string \<Rightarrow> int \<Rightarrow> int \<Rightarrow> fmt" where
  "scenario_fmt u a sr =
     \<lparr>url = Val u, ext = Val ''mp4'', acodec = Val ''mp4a.40.2'', vcodec = Val ''avc1.64001F'',
      abr = Val a, tbr = Absent, asr = Val sr, filesize = Absent, height = Val 720,
      width = Val 1280, fps = Val 30, protocol = Val ''https'', format_note = Absent\<rparr>"

definition scenario_config :: config where
  "scenario_config =
     \<lparr>COOKIES_FILE = Some ''cookies.txt'', PROXY = None, RATE_LIMIT_WINDOW = 5,
      MAX_REQUESTS_PER_MINUTE = 15, CACHE_TTL = 7200, MAX_CACHE_SIZE = 1000\<rparr>"

definition scenario_env :: env where
  "scenario_env =
     \<lparr>cfg = scenario_config,
      path_exists = (\<lambda>p. p = ''cookies.txt''),
      extract_video_id = (\<lambda>u. Some ''abc123''),
      is_valid_youtube_url = (\<lambda>u. True),
      extract_info = (\<lambda>n opts u.
        if o_format opts = Some ''bestaudio/best''
        then Info \<lparr>title = Val ''Song'', duration = Val 200, formats = []\<rparr>
        else if o_format opts = Some ''best[acodec!=none]''
        then Info \<lparr>title = Val ''Song'', duration = Val 200,
                   formats = [scenario_fmt ''u128'' 128 44100, scenario_fmt ''u192'' 192 48000]\<rparr>
        else Raises ''unavailable'')\<rparr>"

text \<open>Scenario C: the resolver fails on every call.\<close>

definition failing_env :: env where
  "failing_env =
     \<lparr>cfg = scenario_config,
      path_exists = (\<lambda>p. p = ''cookies.txt''),
      extract_video_id = (\<lambda>u. Some ''abc123''),
      is_valid_youtube_url = (\<lambda>u. True),
      extract_info = (\<lambda>n opts u. Raises ''Sign in to confirm your age'')\<rparr>"

text \<open>A mixed candidate whose bitrate is zero and whose total bitrate is not.\<close>

definition zero_abr_fmt :: fmt where
  "zero_abr_fmt =
     \<lparr>url = Val ''uA'', ext = Val ''mp4'', acodec = Val ''mp4a.40.2'', vcodec = Val ''avc1.64001F'',
      abr = Val 0, tbr = Val 500, asr = Val 44100, filesize = Absent, height = Val 720,
      width = Val 1280, fps = Val 30, protocol = Val ''https'', format_note = Absent\<rparr>"

text \<open>An audio-only candidate that carries nothing but its URL and codecs.\<close>

definition bare_fmt :: fmt where
  "bare_fmt =
     \<lparr>url = Val ''uB'', ext = Absent, acodec = Val ''opus'', vcodec = Val ''none'',
      abr = Absent, tbr = Absent, asr = Absent, filesize = Absent, height = Absent,
      width = Absent, fps = Absent, protocol = Absent, format_note = Absent\<rparr>"

text \<open>A video document with a 360-line and a 1080-line format, whatever the options.\<close>

definition video_fmt :: "string \<Rightarrow> int \<Rightarrow> int \<Rightarrow> fmt" where
  "video_fmt u h w =
     \<lparr>url = Val u, ext = Val ''mp4'', acodec = Val ''mp4a.40.2'', vcodec = Val ''avc1.64001F'',
      abr = Val 128, tbr = Absent, asr = Val 44100, filesize = Absent, height = Val h,
      width = Val w, fps = Val 30, protocol = Val ''https'', format_note = Absent\<rparr>"

definition video_env :: env where
  "video_env =
     \<lparr>cfg = scenario_config,
      path_exists = (\<lambda>p. False),
      extract_video_id = (\<lambda>u. Some ''abc123''),
      is_valid_youtube_url = (\<lambda>u. True),
      extract_info = (\<lambda>n opts u.
        Info \<lparr>title = Val ''Clip'', duration = Val 60,
              formats = [video_fmt ''u360'' 360 640, video_fmt ''u1080'' 1080 1920]\<rparr>)\<rparr>"

subsection \<open>Reachable states and request histories\<close>

text \<open>
  The states the process can be in: it starts with everything empty, and each request to
  the cached entry point, to the audio endpoint or to the cache-clearing endpoint moves
  it on.
\<close>

inductive reachable :: "env \<Rightarrow> state \<Rightarrow> bool" for e :: env where
  start: "reachable e empty_state"
| stream_info: "reachable e s \<Longrightarrow> reachable e (snd (get_stream_info e now u video_type quality s))"
| audio: "reachable e s \<Longrightarrow> reachable e (snd (stream_audio e now u force_refresh s))"
| clear: "reachable e s \<Longrightarrow> reachable e (s\<lparr>cache := []\<rparr>)"

text \<open>The timestamps recorded for a client; none for a client never seen.\<close>

definition history :: "state \<Rightarrow> string \<Rightarrow> int list" where
  "history s client_key = (case requests s client_key of None \<Rightarrow> [] | Some l \<Rightarrow> l)"

text \<open>A configuration with a window of 5 time units and at most 3 requests in it.\<close>

definition small_env :: env where
  "small_env =
     \<lparr>cfg = \<lparr>COOKIES_FILE = None, PROXY = None, RATE_LIMIT_WINDOW = 5,
             MAX_REQUESTS_PER_MINUTE = 3, CACHE_TTL = 7200, MAX_CACHE_SIZE = 1000\<rparr>,
      path_exists = (\<lambda>p. False),
      extract_video_id = (\<lambda>u. Some ''abc123''),
      is_valid_youtube_url = (\<lambda>u. True),
      extract_info = (\<lambda>n opts u. NoInfo)\<rparr>"

section \<open>The descending stable sort\<close>

lemma last_insort_key:
  "acc \<noteq> [] \<Longrightarrow> sorted (map k acc) \<Longrightarrow>
     last (insort_key k x acc) = (if k (last acc) < k x then x else last acc)"
proof (induction acc)
  case Nil
  then show ?case by simp
next
  case (Cons a acc)
  show ?case
  proof (cases "acc = []")
    case True
    then show ?thesis by auto
  next
    case False
    with Cons.prems have le: "k a \<le> k (last acc)" by simp
    from Cons.prems False have so: "sorted (map k acc)" by simp
    show ?thesis
    proof (cases "k x \<le> k a")
      case True
      then have "\<not> k (last acc) < k x" using le by auto
      then show ?thesis using True False by simp
    next
      case F: False
      then have "last (insort_key k x (a # acc)) = last (insort_key k x acc)"
        by (cases acc) auto
      then show ?thesis using Cons.IH[OF False so] False by simp
    qed
  qed
qed

lemma last_fold_insort:
  "acc \<noteq> [] \<Longrightarrow> sorted (map k acc) \<Longrightarrow>
     last (fold (insort_key k) xs acc) = first_max k (last acc) xs"
proof (induction xs arbitrary: acc)
  case Nil
  then show ?case by simp
next
  case (Cons x xs)
  have ne: "insort_key k x acc \<noteq> []" by (cases acc) auto
  have so: "sorted (map k (insort_key k x acc))" using Cons.prems(2) by (simp add: sorted_insort_key)
  show ?case
    using Cons.IH[OF ne so] Cons.prems by (simp add: last_insort_key)
qed

lemma hd_sort_reverse: "hd (sort_reverse k (x # xs)) = first_max k x xs"
proof -
  have "sort_key k (rev (x # xs)) = fold (insort_key k) (x # xs) []"
    by (simp add: sort_key_def foldr_conv_fold)
  also have "\<dots> = fold (insort_key k) xs [x]" by simp
  finally have "last (sort_key k (rev (x # xs))) = first_max k x xs"
    by (simp add: last_fold_insort)
  moreover have "sort_key k (rev (x # xs)) \<noteq> []"
  proof
    assume "sort_key k (rev (x # xs)) = []"
    then have "length (sort_key k (rev (x # xs))) = 0" by simp
    then show False by simp
  qed
  ultimately show ?thesis
    by (simp add: sort_reverse_def hd_rev)
qed

lemma first_max_mem: "first_max k b xs \<in> set (b # xs)"
  by (induction xs arbitrary: b) auto

lemma first_max_ge_start: "k b \<le> k (first_max k b xs)"
proof (induction xs arbitrary: b)
  case Nil
  then show ?case by simp
next
  case (Cons x xs)
  have "k b \<le> k (if k b < k x then x else b)" by auto
  also have "\<dots> \<le> k (first_max k (if k b < k x then x else b) xs)" by (rule Cons.IH)
  finally show ?case by simp
qed

lemma first_max_ge: "y \<in> set (b # xs) \<Longrightarrow> k y \<le> k (first_max k b xs)"
proof (induction xs arbitrary: b)
  case Nil
  then show ?case by simp
next
  case (Cons x xs)
  let ?b = "if k b < k x then x else b"
  from Cons.prems consider "y = b" | "y = x" | "y \<in> set xs" by auto
  then show ?case
  proof cases
    case 1
    then show ?thesis using first_max_ge_start[of k b "x # xs"] by simp
  next
    case 2
    have "k x \<le> k ?b" by auto
    also have "\<dots> \<le> k (first_max k ?b xs)" by (rule first_max_ge_start)
    finally show ?thesis using 2 by simp
  next
    case 3
    then have "k y \<le> k (first_max k ?b xs)" using Cons.IH[of ?b] by simp
    then show ?thesis by simp
  qed
qed

lemma first_max_first:
  "hd (filter (\<lambda>y. k y = k (first_max k b xs)) (b # xs)) = first_max k b xs"
proof (induction xs arbitrary: b)
  case Nil
  then show ?case by simp
next
  case (Cons x xs)
  define b' where "b' = (if k b < k x then x else b)"
  define m where "m = first_max k b' xs"
  have IH: "hd (filter (\<lambda>y. k y = k m) (b' # xs)) = m"
    unfolding m_def by (rule Cons.IH)
  have ge: "k b' \<le> k m" unfolding m_def by (rule first_max_ge_start)
  have goal: "hd (filter (\<lambda>y. k y = k m) (b # x # xs)) = m"
  proof (cases "k b < k x")
    case True
    then have b': "b' = x" by (simp add: b'_def)
    have "k b \<noteq> k m" using True ge b' by auto
    then show ?thesis using IH b' by simp
  next
    case False
    then have b': "b' = b" by (simp add: b'_def)
    show ?thesis
    proof (cases "k b = k m")
      case True
      then show ?thesis using IH b' by simp
    next
      case F2: False
      then have "k x \<noteq> k m" using False ge b' by auto
      then show ?thesis using IH F2 b' by simp
    qed
  qed
  have "first_max k b (x # xs) = m" by (simp add: m_def b'_def)
  then show ?case using goal by simp
qed

section \<open>The fallback chain\<close>

lemma status_audio_result:
  "status (audio_result vid m p) = ''success'' \<or> status (audio_result vid m p) = ''error''"
  by (simp add: audio_result_def error_result_def split: probe.splits option.splits field.splits)

lemma method_used_audio_result:
  "status (audio_result vid m p) = ''success'' \<Longrightarrow> method_used (audio_result vid m p) = Val m"
  by (simp add: audio_result_def error_result_def split: probe.splits option.splits field.splits)

lemma try_fst: "fst (try_audio_method e u (extract_video_id e u) m c s) = method_outcome e u m c (length (calls s))"
  by (simp add: try_audio_method_def method_outcome_def Let_def)

lemma try_snd: "snd (try_audio_method e u vid m c s) = s\<lparr>attempts := attempts s @ [m], calls := calls s @ [(audio_opts e m c, u)]\<rparr>"
  by (simp add: try_audio_method_def Let_def)

lemma order_with: "uc \<and> cookies_file_present e \<Longrightarrow> audio_method_order e uc =
   [(''cookies_method'', True), (''mixed_format_method'', False), (''dash_method'', False), (''generic_method'', False)]"
  by (simp add: audio_method_order_def)

lemma order_without: "\<not> (uc \<and> cookies_file_present e) \<Longrightarrow> audio_method_order e uc =
   [(''mixed_format_method'', False), (''dash_method'', False), (''generic_method'', False)]"
  by (simp add: audio_method_order_def)

lemma fallbacks_run:
  "audio_fallbacks e u (extract_video_id e u) s =
     run_methods e u (''mixed_format_method'', False) [(''dash_method'', False), (''generic_method'', False)] s"
  by (simp add: audio_fallbacks_def split: prod.splits)

lemma get_audio_stream_run:
  "get_audio_stream e u uc s =
     run_methods e u (hd (audio_method_order e uc)) (tl (audio_method_order e uc)) s"
proof (cases "uc \<and> cookies_file_present e")
  case True
  have "audio_method_order e uc = [(''cookies_method'', True), (''mixed_format_method'', False), (''dash_method'', False), (''generic_method'', False)]"
    using True by (rule order_with)
  then show ?thesis using True
    by (simp add: get_audio_stream_def fallbacks_run Let_def split: prod.splits)
next
  case False
  have "audio_method_order e uc = [(''mixed_format_method'', False), (''dash_method'', False), (''generic_method'', False)]"
    using False by (rule order_without)
  then show ?thesis using False
    by (auto simp: get_audio_stream_def fallbacks_run Let_def)
qed

lemma run_methods_trace:
  "run_methods e u mc ms s = (r, s') \<Longrightarrow>
     \<exists>k. k < length (mc # ms)
       \<and> attempts s' = attempts s @ map fst (take (Suc k) (mc # ms))
       \<and> length (calls s') = length (calls s) + Suc k
       \<and> r = method_outcome e u (fst ((mc # ms) ! k)) (snd ((mc # ms) ! k)) (length (calls s) + k)
       \<and> (\<forall>j<k. status (method_outcome e u (fst ((mc # ms) ! j)) (snd ((mc # ms) ! j)) (length (calls s) + j)) \<noteq> ''success'')
       \<and> (status r \<noteq> ''success'' \<longrightarrow> k = length ms)"
proof (induction ms arbitrary: mc s)
  case Nil
  obtain m c where mc: "mc = (m, c)" by (cases mc)
  from Nil have "r = fst (try_audio_method e u (extract_video_id e u) m c s)"
     "s' = snd (try_audio_method e u (extract_video_id e u) m c s)"
    by (simp_all add: mc)
  then show ?case
    by (intro exI[of _ 0]) (simp add: mc try_fst try_snd)
next
  case (Cons n ns)
  obtain m c where mc: "mc = (m, c)" by (cases mc)
  let ?t = "try_audio_method e u (extract_video_id e u) m c s"
  show ?case
  proof (cases "status (fst ?t) = ''success''")
    case True
    with Cons.prems have "r = fst ?t" "s' = snd ?t"
      by (simp_all add: mc Let_def split: prod.splits)
    then show ?thesis using True
      by (intro exI[of _ 0]) (simp add: mc try_fst try_snd)
  next
    case False
    with Cons.prems have run: "run_methods e u n ns (snd ?t) = (r, s')"
      by (simp add: mc Let_def split: prod.splits)
    from Cons.IH[OF run] obtain k where k: "k < length (n # ns)"
      "attempts s' = attempts (snd ?t) @ map fst (take (Suc k) (n # ns))"
      "length (calls s') = length (calls (snd ?t)) + Suc k"
      "r = method_outcome e u (fst ((n # ns) ! k)) (snd ((n # ns) ! k)) (length (calls (snd ?t)) + k)"
      "\<forall>j<k. status (method_outcome e u (fst ((n # ns) ! j)) (snd ((n # ns) ! j)) (length (calls (snd ?t)) + j)) \<noteq> ''success''"
      "status r \<noteq> ''success'' \<longrightarrow> k = length ns"
      by blast
    have all: "\<forall>j<Suc k. status (method_outcome e u (fst ((mc # n # ns) ! j)) (snd ((mc # n # ns) ! j)) (length (calls s) + j)) \<noteq> ''success''"
    proof (intro allI impI)
      fix j assume "j < Suc k"
      show "status (method_outcome e u (fst ((mc # n # ns) ! j)) (snd ((mc # n # ns) ! j)) (length (calls s) + j)) \<noteq> ''success''"
      proof (cases j)
        case 0
        then show ?thesis using False by (simp add: mc try_fst)
      next
        case (Suc i)
        with \<open>j < Suc k\<close> have "i < k" by simp
        with k(5) show ?thesis by (simp add: Suc try_snd)
      qed
    qed
    have a: "attempts s' = attempts s @ map fst (take (Suc (Suc k)) (mc # n # ns))"
      using k(2) by (simp add: try_snd mc)
    have b: "length (calls s') = length (calls s) + Suc (Suc k)"
      using k(3) by (simp add: try_snd)
    have c: "r = method_outcome e u (fst ((mc # n # ns) ! Suc k)) (snd ((mc # n # ns) ! Suc k)) (length (calls s) + Suc k)"
      using k(4) by (simp add: try_snd)
    have d: "status r \<noteq> ''success'' \<longrightarrow> Suc k = length (n # ns)"
      using k(6) by simp
    have e: "Suc k < length (mc # n # ns)" using k(1) by simp
    show ?thesis
      using a b c d e all by blast
  qed
qed

lemma run_methods_stops:
  "\<exists>k<length (mc # ms).
       attempts (snd (run_methods e u mc ms s)) = attempts s @ map fst (take (Suc k) (mc # ms))
     \<and> length (calls (snd (run_methods e u mc ms s))) = length (calls s) + Suc k
     \<and> fst (run_methods e u mc ms s)
         = method_outcome e u (fst ((mc # ms) ! k)) (snd ((mc # ms) ! k)) (length (calls s) + k)
     \<and> (\<forall>j<k. status (method_outcome e u (fst ((mc # ms) ! j)) (snd ((mc # ms) ! j))
                   (length (calls s) + j)) \<noteq> ''success'')
     \<and> (status (fst (run_methods e u mc ms s)) \<noteq> ''success'' \<longrightarrow> k = length ms)"
  using run_methods_trace[of e u mc ms s "fst (run_methods e u mc ms s)" "snd (run_methods e u mc ms s)"]
  by simp

lemma order_nonempty: "audio_method_order e uc \<noteq> []"
  by (simp add: audio_method_order_def)

lemma method_used_outcome:
  "status (method_outcome e u m c n) = ''success'' \<Longrightarrow> method_used (method_outcome e u m c n) = Val m"
  by (simp add: method_outcome_def method_used_audio_result)

lemma scenario_direct:
  assumes "uc \<and> cookies_file_present e"
    and "status (method_outcome e u ''cookies_method'' True (length (calls s))) \<noteq> ''success''"
    and "status (method_outcome e u ''mixed_format_method'' False (Suc (length (calls s)))) = ''success''"
  shows "get_audio_stream e u uc s =
     (method_outcome e u ''mixed_format_method'' False (Suc (length (calls s))),
      s\<lparr>attempts := attempts s @ [''cookies_method'', ''mixed_format_method''],
        calls := calls s @ [(audio_opts e ''cookies_method'' True, u),
                            (audio_opts e ''mixed_format_method'' False, u)]\<rparr>)"
proof -
  let ?vid = "extract_video_id e u"
  let ?t1 = "try_audio_method e u ?vid ''cookies_method'' True s"
  let ?t2 = "try_audio_method e u ?vid ''mixed_format_method'' False (snd ?t1)"
  have f1: "status (fst ?t1) \<noteq> ''success''" using assms(2) by (simp add: try_fst)
  have f2: "status (fst ?t2) = ''success''" using assms(3) by (simp add: try_fst try_snd)
  have "get_audio_stream e u uc s = audio_fallbacks e u ?vid (snd ?t1)"
    using assms(1) f1 by (simp add: get_audio_stream_def Let_def case_prod_beta)
  also have "\<dots> = ?t2"
    using f2 by (simp add: audio_fallbacks_def Let_def case_prod_beta)
  also have "\<dots> = (fst ?t2, snd ?t2)" by simp
  finally show ?thesis by (simp add: try_fst try_snd)
qed

section \<open>The format selection\<close>

lemma audio_key_amended: "audio_key x = amended_audio_key x"
  by (cases "abr x"; cases "tbr x"; cases "asr x"; cases "filesize x")
     (simp_all add: audio_key_def amended_audio_key_def py_or_def)

lemma select_audio_first_max:
  "select_audio m fs =
     (case filter (suitable_audio m) fs of
        [] \<Rightarrow> None
      | x # xs \<Rightarrow> Some (first_max audio_key x xs))"
  by (simp add: select_audio_def Let_def hd_sort_reverse split: list.splits)

lemma select_video_first_max:
  "select_video fs =
     (case filter (\<lambda>f. dict_get (vcodec f) \<noteq> Some ''none'') fs of
        [] \<Rightarrow> None
      | x # xs \<Rightarrow> Some (first_max video_key x xs))"
  by (simp add: select_video_def Let_def hd_sort_reverse split: list.splits)

lemma select_audio_Some:
  assumes "select_audio m fs = Some b"
  shows "b \<in> set (filter (suitable_audio m) fs)"
    and "\<forall>c\<in>set (filter (suitable_audio m) fs). audio_key c \<le> audio_key b"
    and "hd (filter (\<lambda>c. audio_key c = audio_key b) (filter (suitable_audio m) fs)) = b"
proof -
  from assms obtain x xs where f: "filter (suitable_audio m) fs = x # xs"
    and b: "b = first_max audio_key x xs"
    by (auto simp: select_audio_first_max split: list.splits)
  show "b \<in> set (filter (suitable_audio m) fs)"
    unfolding f b by (rule first_max_mem)
  show "\<forall>c\<in>set (filter (suitable_audio m) fs). audio_key c \<le> audio_key b"
    unfolding f b by (blast intro: first_max_ge)
  show "hd (filter (\<lambda>c. audio_key c = audio_key b) (filter (suitable_audio m) fs)) = b"
    unfolding f b by (rule first_max_first)
qed

lemma select_audio_None: "(select_audio m fs = None) = (filter (suitable_audio m) fs = [])"
  by (simp add: select_audio_def Let_def)

section \<open>The result cache\<close>

lemma try_cache: "cache (snd (try_audio_method e u vid m c s)) = cache s"
  by (simp add: try_snd)

lemma fallbacks_cache: "cache (snd (audio_fallbacks e u vid s)) = cache s"
  by (simp add: audio_fallbacks_def Let_def case_prod_beta try_snd)

lemma get_audio_stream_cache: "cache (snd (get_audio_stream e u uc s)) = cache s"
  by (simp add: get_audio_stream_def Let_def case_prod_beta try_snd fallbacks_cache)

lemma cache_get_subset: "set (cache (snd (cache_get e now k s))) \<subseteq> set (cache s)"
  by (auto simp: cache_get_def split: option.splits)

lemma cache_get_hit: "fst (cache_get e now k s) = Some r \<Longrightarrow> \<exists>t. (k, r, t) \<in> set (cache s)"
proof -
  assume a: "fst (cache_get e now k s) = Some r"
  then obtain t where "map_of (cache s) k = Some (r, t)"
    by (auto simp: cache_get_def split: option.splits if_splits)
  then have "(k, r, t) \<in> set (cache s)" by (rule map_of_SomeD)
  then show ?thesis by blast
qed

lemma set_tl_subset: "set (tl xs) \<subseteq> set xs"
  by (cases xs) auto

lemma cache_set_entries: "set (cache (cache_set e now k v s)) \<subseteq> insert (k, v, now) (set (cache s))"
  using set_tl_subset[of "cache s"] by (auto simp: cache_set_def)

lemma get_stream_info_writes:
  assumes "en \<in> set (cache (snd (get_stream_info e now u vt q s)))"
  shows "en \<in> set (cache s) \<or> status (fst (snd en)) = ''success''"
proof (cases "extract_video_id e u")
  case None
  with assms show ?thesis by (simp add: get_stream_info_def)
next
  case (Some vid)
  show ?thesis
  proof (cases "vid = []")
    case True
    with assms Some show ?thesis by (simp add: get_stream_info_def)
  next
    case False
    let ?k = "vid @ '':'' @ vt @ '':'' @ q"
    let ?g = "cache_get e now ?k s"
    show ?thesis
    proof (cases "fst ?g")
      case (Some r)
      with assms \<open>extract_video_id e u = Some vid\<close> False
      have "en \<in> set (cache (snd ?g))"
        by (simp add: get_stream_info_def Let_def case_prod_beta)
      then show ?thesis using cache_get_subset[of e now ?k s] by blast
    next
      case None
      define rs where "rs =
        (if vt = ''audio'' then get_audio_stream e u True (snd ?g)
         else (video_result e u vid
                 (extract_info e (length (calls (snd ?g))) (get_ydl_options e vt q) u),
               (snd ?g)\<lparr>calls := calls (snd ?g) @ [(get_ydl_options e vt q, u)]\<rparr>))"
      have c1: "cache (snd rs) = cache (snd ?g)"
        by (simp add: rs_def get_audio_stream_cache)
      have res: "snd (get_stream_info e now u vt q s) =
          (if status (fst rs) = ''success'' then cache_set e now ?k (fst rs) (snd rs) else snd rs)"
        using None \<open>extract_video_id e u = Some vid\<close> False
        by (simp add: get_stream_info_def Let_def case_prod_beta rs_def)
      show ?thesis
      proof (cases "status (fst rs) = ''success''")
        case True
        with assms res have "en \<in> set (cache (cache_set e now ?k (fst rs) (snd rs)))" by simp
        then have "en = (?k, fst rs, now) \<or> en \<in> set (cache (snd rs))"
          using cache_set_entries by blast
        then show ?thesis using True c1 cache_get_subset[of e now ?k s] by auto
      next
        case F: False
        with assms res have "en \<in> set (cache (snd rs))" by simp
        then show ?thesis using c1 cache_get_subset[of e now ?k s] by auto
      qed
    qed
  qed
qed

lemma cached_or_resolved_cache:
  "set (cache (snd (cached_or_resolved e now u fr s))) \<subseteq> set (cache s)"
proof (cases fr)
  case True
  then show ?thesis by (simp add: cached_or_resolved_def get_audio_stream_cache)
next
  case False
  let ?k = "''audio:'' @ str_of (extract_video_id e u)"
  have sub: "set (cache (snd (cache_get e now ?k s))) \<subseteq> set (cache s)"
    by (rule cache_get_subset)
  show ?thesis
  proof (cases "fst (cache_get e now ?k s)")
    case None
    then show ?thesis using False sub
      by (simp add: cached_or_resolved_def Let_def case_prod_beta get_audio_stream_cache)
  next
    case (Some r)
    then show ?thesis using False sub
      by (simp add: cached_or_resolved_def Let_def case_prod_beta get_audio_stream_cache)
  qed
qed

lemma retried_cache: "cache (snd (retried_without_cookies e u rs)) = cache (snd rs)"
  by (simp add: retried_without_cookies_def get_audio_stream_cache)

lemma stream_audio_writes:
  assumes "en \<in> set (cache (snd (stream_audio e now u fr s)))"
  shows "en \<in> set (cache s) \<or> status (fst (snd en)) = ''success''"
proof (cases "is_valid_youtube_url e u")
  case False
  with assms show ?thesis by (simp add: stream_audio_def)
next
  case True
  let ?k = "''audio:'' @ str_of (extract_video_id e u)"
  define rs where "rs = retried_without_cookies e u (cached_or_resolved e now u fr s)"
  have c1: "set (cache (snd rs)) \<subseteq> set (cache s)"
    unfolding rs_def retried_cache by (rule cached_or_resolved_cache)
  show ?thesis
  proof (cases "status (fst rs) = ''success''")
    case False
    then have "snd (stream_audio e now u fr s) = snd rs"
      using True by (simp add: stream_audio_def Let_def case_prod_beta rs_def)
    with assms c1 show ?thesis by auto
  next
    case S: True
    show ?thesis
    proof (cases "stream_url (fst rs) = Absent")
      case A: True
      then have "snd (stream_audio e now u fr s) = snd rs"
        using True S by (simp add: stream_audio_def Let_def case_prod_beta rs_def[symmetric])
      with assms c1 show ?thesis by auto
    next
      case P: False
      show ?thesis
      proof (cases "audio_headers (fst rs)")
        case (Inl exn)
        then have "snd (stream_audio e now u fr s) = snd rs"
          using True S P
          by (simp add: stream_audio_def Let_def case_prod_beta rs_def[symmetric])
        with assms c1 show ?thesis by auto
      next
        case (Inr hs)
        then have "snd (stream_audio e now u fr s) = cache_set e now ?k (fst rs) (snd rs)"
          using True S P
          by (simp add: stream_audio_def Let_def case_prod_beta rs_def[symmetric])
        with assms have "en \<in> set (cache (cache_set e now ?k (fst rs) (snd rs)))" by simp
        then have "en = (?k, fst rs, now) \<or> en \<in> set (cache (snd rs))"
          using cache_set_entries[of e now ?k "fst rs" "snd rs"] by blast
        then show ?thesis using S c1 by auto
      qed
    qed
  qed
qed

lemma reachable_cache_success:
  "reachable e s \<Longrightarrow> \<forall>en\<in>set (cache s). status (fst (snd en)) = ''success''"
proof (induction rule: reachable.induct)
  case start
  then show ?case by (simp add: empty_state_def)
next
  case (stream_info s now u video_type quality)
  then show ?case using get_stream_info_writes by blast
next
  case (audio s now u force_refresh)
  then show ?case using stream_audio_writes by blast
next
  case (clear s)
  then show ?case by simp
qed

section \<open>Admission control\<close>

lemma check_limit_admit:
  assumes "requests s c = Some h"
    and "\<forall>x\<in>set h. t - RATE_LIMIT_WINDOW (cfg e) \<le> x"
    and "length h < MAX_REQUESTS_PER_MINUTE (cfg e)"
  shows "check_limit e t c s = (True, s\<lparr>requests := (requests s)(c \<mapsto> h @ [t])\<rparr>)"
proof -
  have "filter (\<lambda>x. \<not> x < t - RATE_LIMIT_WINDOW (cfg e)) h = h"
    using assms(2) by (auto simp: filter_id_conv)
  then show ?thesis using assms(1,3) by (simp add: check_limit_def Let_def)
qed

lemma check_all_admit:
  assumes "requests s c = Some h"
    and "\<forall>x\<in>set h. lo \<le> x"
    and "\<forall>t\<in>set ts. lo \<le> t \<and> t \<le> lo + RATE_LIMIT_WINDOW (cfg e)"
    and "length h + length ts \<le> MAX_REQUESTS_PER_MINUTE (cfg e)"
  shows "fst (check_all e c ts s) = replicate (length ts) True
       \<and> snd (check_all e c ts s) = s\<lparr>requests := (requests s)(c \<mapsto> h @ ts)\<rparr>"
  using assms
proof (induction ts arbitrary: s h)
  case Nil
  then show ?case by (simp add: fun_upd_idem)
next
  case (Cons t ts)
  let ?s' = "s\<lparr>requests := (requests s)(c \<mapsto> h @ [t])\<rparr>"
  have win: "\<forall>x\<in>set h. t - RATE_LIMIT_WINDOW (cfg e) \<le> x"
    using Cons.prems(2,3) by fastforce
  have len: "length h < MAX_REQUESTS_PER_MINUTE (cfg e)"
    using Cons.prems(4) by simp
  have step: "check_limit e t c s = (True, ?s')"
    using Cons.prems(1) win len by (rule check_limit_admit)
  have r': "requests ?s' c = Some (h @ [t])" by simp
  have lo': "\<forall>x\<in>set (h @ [t]). lo \<le> x" using Cons.prems(2,3) by auto
  have ts': "\<forall>t\<in>set ts. lo \<le> t \<and> t \<le> lo + RATE_LIMIT_WINDOW (cfg e)"
    using Cons.prems(3) by simp
  have len': "length (h @ [t]) + length ts \<le> MAX_REQUESTS_PER_MINUTE (cfg e)"
    using Cons.prems(4) by simp
  note IH = Cons.IH[OF r' lo' ts' len']
  have IH1: "fst (check_all e c ts ?s') = replicate (length ts) True"
    using IH by (rule conjunct1)
  have "snd (check_all e c ts ?s') = ?s'\<lparr>requests := (requests ?s')(c \<mapsto> (h @ [t]) @ ts)\<rparr>"
    using IH by (rule conjunct2)
  also have "\<dots> = s\<lparr>requests := (requests s)(c \<mapsto> h @ t # ts)\<rparr>"
    by simp
  finally have IH2: "snd (check_all e c ts ?s') = s\<lparr>requests := (requests s)(c \<mapsto> h @ t # ts)\<rparr>" .
  have ca: "check_all e c (t # ts) s
      = (True # fst (check_all e c ts ?s'), snd (check_all e c ts ?s'))"
    by (simp add: step case_prod_beta)
  show ?case
    by (simp only: ca fst_conv snd_conv IH1 IH2 list.size replicate.simps simp_thms
        add_Suc_right Nat.add_0_right)
qed

lemma check_limit_first:
  assumes "\<forall>x\<in>set (history s c). x < t - RATE_LIMIT_WINDOW (cfg e)"
    and "0 < MAX_REQUESTS_PER_MINUTE (cfg e)"
  shows "check_limit e t c s = (True, s\<lparr>requests := (requests s)(c \<mapsto> [t])\<rparr>)"
proof -
  have "filter (\<lambda>x. \<not> x < t - RATE_LIMIT_WINDOW (cfg e)) (history s c) = []"
    using assms(1) by (auto simp: filter_empty_conv)
  then show ?thesis using assms(2)
    by (simp add: check_limit_def Let_def history_def)
qed

lemma check_limit_reject:
  assumes "requests s c = Some h"
    and "\<forall>x\<in>set h. t - RATE_LIMIT_WINDOW (cfg e) \<le> x"
    and "MAX_REQUESTS_PER_MINUTE (cfg e) \<le> length h"
  shows "check_limit e t c s = (False, s)"
proof -
  have f: "filter (\<lambda>x. \<not> x < t - RATE_LIMIT_WINDOW (cfg e)) h = h"
    using assms(2) by (auto simp: filter_id_conv)
  have "(requests s)(c \<mapsto> h) = requests s"
    using assms(1) by (rule fun_upd_idem)
  then have "s\<lparr>requests := (requests s)(c \<mapsto> h)\<rparr> = s" by simp
  then show ?thesis using assms(1,3) f
    by (simp only: check_limit_def Let_def option.case if_True)
qed

lemma check_limit_after:
  assumes "requests s c = Some (t1 # ts)"
    and "t1 < t - RATE_LIMIT_WINDOW (cfg e)"
    and "length (t1 # ts) \<le> MAX_REQUESTS_PER_MINUTE (cfg e)"
  shows "fst (check_limit e t c s) = True"
proof -
  have "length (filter (\<lambda>x. \<not> x < t - RATE_LIMIT_WINDOW (cfg e)) (t1 # ts))
      = length (filter (\<lambda>x. \<not> x < t - RATE_LIMIT_WINDOW (cfg e)) ts)"
    using assms(2) by simp
  also have "\<dots> \<le> length ts" by (rule length_filter_le)
  also have "\<dots> < MAX_REQUESTS_PER_MINUTE (cfg e)" using assms(3) by simp
  finally show ?thesis using assms(1)
    by (simp add: check_limit_def Let_def del: filter.simps)
qed

lemma middleware_reject:
  "check_limit e t c s = (False, s') \<Longrightarrow>
     rate_limit_middleware e t (Some c) call_next s = (HTTPException 429 ''Rate limit exceeded'', s')"
  by (simp add: rate_limit_middleware_def)

section \<open>The concrete scenarios, evaluated\<close>

lemma scenario_present: "cookies_file_present scenario_env"
  by (simp add: cookies_file_present_def scenario_env_def scenario_config_def)

lemma scenario_m2:
  "method_outcome scenario_env u ''mixed_format_method'' False n
   = \<lparr>status = ''success'', message = Absent, video_id = Val ''abc123'',
      r_title = Val ''Song'', r_duration = Val 200, stream_url = Val ''u192'',
      r_type = Val ''audio'',
      r_format = Val (AudioOut (audio_format_out (scenario_fmt ''u192'' 192 48000))),
      method_used = Val ''mixed_format_method''\<rparr>"
  by (simp add: method_outcome_def audio_result_def audio_opts_def scenario_env_def select_audio_def
      suitable_audio_def scenario_fmt_def sort_reverse_def audio_key_def py_or_def)

lemma scenario_m1:
  "method_outcome scenario_env u ''cookies_method'' True n
   = error_result ''No suitable formats in cookies_method''"
  by (simp add: method_outcome_def audio_result_def audio_opts_def scenario_env_def select_audio_def)

lemma scenario_audio_resolution:
  "get_audio_stream scenario_env u True s =
     (method_outcome scenario_env u ''mixed_format_method'' False (Suc (length (calls s))),
      s\<lparr>attempts := attempts s @ [''cookies_method'', ''mixed_format_method''],
        calls := calls s @ [(audio_opts scenario_env ''cookies_method'' True, u),
                            (audio_opts scenario_env ''mixed_format_method'' False, u)]\<rparr>)"
  by (rule scenario_direct) (simp_all add: scenario_present scenario_m1 scenario_m2 error_result_def)

lemma scenario_stream_info_cache:
  "cache (snd (get_stream_info scenario_env 0 ''https://youtu.be/abc123'' ''audio'' ''best'' empty_state))
   = [(''abc123:audio:best'',
       method_outcome scenario_env ''https://youtu.be/abc123'' ''mixed_format_method'' False 1, 0)]"
proof -
  have vid: "extract_video_id scenario_env ''https://youtu.be/abc123'' = Some ''abc123''"
    by (simp add: scenario_env_def)
  have g: "cache_get scenario_env 0 ''abc123:audio:best'' empty_state
      = (None, empty_state\<lparr>misses := 1\<rparr>)"
    by (simp add: cache_get_def empty_state_def)
  show ?thesis
    by (simp add: get_stream_info_def vid g scenario_audio_resolution scenario_m2)
       (simp add: cache_set_def empty_state_def)
qed

text \<open>A resolver that fails on every call.\<close>

lemma failing_outcome:
  "method_outcome failing_env u m c n = error_result (m @ '': Sign in to confirm your age'')"
  by (simp add: method_outcome_def audio_result_def failing_env_def)

text \<open>
  Claim C1. An audio resolution is the ordered chain with early exit over the declared
  order (method 1 is part of it only behind its guard): it tries the methods one after the
  other and stops at the first one that succeeds. The methods announced are a prefix of
  the order, every method before the last one tried has failed, the result is the one
  of the last method tried, a success names that method, and a failure means the whole
  order was tried. In particular, when the cookie method fails and the mixed-format method
  succeeds, the result names the mixed-format method (\<^verbatim>\<open>mixed_format_method\<close> in the
  code) and exactly those two calls were made: methods 3 and 4 are not attempted.
\<close>

theorem resolve_order:
  "get_audio_stream e u uc s
     = run_methods e u (hd (audio_method_order e uc)) (tl (audio_method_order e uc)) s
   \<and> (\<exists>k<length (audio_method_order e uc).
       attempts (snd (get_audio_stream e u uc s))
         = attempts s @ map fst (take (Suc k) (audio_method_order e uc))
     \<and> length (calls (snd (get_audio_stream e u uc s))) = length (calls s) + Suc k
     \<and> fst (get_audio_stream e u uc s) = chain_outcome e u uc (length (calls s)) k
     \<and> (\<forall>j<k. status (chain_outcome e u uc (length (calls s)) j) \<noteq> ''success'')
     \<and> (status (fst (get_audio_stream e u uc s)) = ''success'' \<longrightarrow>
          method_used (fst (get_audio_stream e u uc s)) = Val (fst (audio_method_order e uc ! k)))
     \<and> (status (fst (get_audio_stream e u uc s)) \<noteq> ''success'' \<longrightarrow>
          Suc k = length (audio_method_order e uc)))
   \<and> (uc \<and> cookies_file_present e
       \<and> status (method_outcome e u ''cookies_method'' True (length (calls s))) \<noteq> ''success''
       \<and> status (method_outcome e u ''mixed_format_method'' False (Suc (length (calls s)))) = ''success''
      \<longrightarrow> method_used (fst (get_audio_stream e u uc s)) = Val ''mixed_format_method''
        \<and> attempts (snd (get_audio_stream e u uc s))
            = attempts s @ [''cookies_method'', ''mixed_format_method'']
        \<and> calls (snd (get_audio_stream e u uc s))
            = calls s @ [(audio_opts e ''cookies_method'' True, u),
                         (audio_opts e ''mixed_format_method'' False, u)])"
proof (intro conjI impI)
  let ?ord = "audio_method_order e uc"
  let ?g = "get_audio_stream e u uc s"
  show run: "?g = run_methods e u (hd ?ord) (tl ?ord) s" by (rule get_audio_stream_run)
  have ord: "hd ?ord # tl ?ord = ?ord" using order_nonempty[of e uc] by simp
  from run_methods_stops[of "hd ?ord" "tl ?ord" e u s]
  obtain k where k: "k < length ?ord"
    "attempts (snd ?g) = attempts s @ map fst (take (Suc k) ?ord)"
    "length (calls (snd ?g)) = length (calls s) + Suc k"
    "fst ?g = method_outcome e u (fst (?ord ! k)) (snd (?ord ! k)) (length (calls s) + k)"
    "\<forall>j<k. status (method_outcome e u (fst (?ord ! j)) (snd (?ord ! j)) (length (calls s) + j)) \<noteq> ''success''"
    "status (fst ?g) \<noteq> ''success'' \<longrightarrow> k = length (tl ?ord)"
    unfolding ord run[symmetric] by blast
  have used: "status (fst ?g) = ''success'' \<longrightarrow> method_used (fst ?g) = Val (fst (?ord ! k))"
    using k(4) method_used_outcome by metis
  have last: "status (fst ?g) \<noteq> ''success'' \<longrightarrow> Suc k = length ?ord"
    using k(6) order_nonempty[of e uc] by (cases ?ord) auto
  show "\<exists>k<length ?ord.
       attempts (snd ?g) = attempts s @ map fst (take (Suc k) ?ord)
     \<and> length (calls (snd ?g)) = length (calls s) + Suc k
     \<and> fst ?g = chain_outcome e u uc (length (calls s)) k
     \<and> (\<forall>j<k. status (chain_outcome e u uc (length (calls s)) j) \<noteq> ''success'')
     \<and> (status (fst ?g) = ''success'' \<longrightarrow> method_used (fst ?g) = Val (fst (?ord ! k)))
     \<and> (status (fst ?g) \<noteq> ''success'' \<longrightarrow> Suc k = length ?ord)"
    using k(1,2,3,4,5) used last unfolding chain_outcome_def Let_def by blast
next
  assume a: "uc \<and> cookies_file_present e
       \<and> status (method_outcome e u ''cookies_method'' True (length (calls s))) \<noteq> ''success''
       \<and> status (method_outcome e u ''mixed_format_method'' False (Suc (length (calls s)))) = ''success''"
  then have g: "get_audio_stream e u uc s =
     (method_outcome e u ''mixed_format_method'' False (Suc (length (calls s))),
      s\<lparr>attempts := attempts s @ [''cookies_method'', ''mixed_format_method''],
        calls := calls s @ [(audio_opts e ''cookies_method'' True, u),
                            (audio_opts e ''mixed_format_method'' False, u)]\<rparr>)"
    by (intro scenario_direct) simp_all
  have fstg: "fst (get_audio_stream e u uc s)
      = method_outcome e u ''mixed_format_method'' False (Suc (length (calls s)))"
    by (simp add: g)
  have "method_used (method_outcome e u ''mixed_format_method'' False (Suc (length (calls s))))
      = Val ''mixed_format_method''"
    using a by (intro method_used_outcome) simp
  then show "method_used (fst (get_audio_stream e u uc s)) = Val ''mixed_format_method''"
    by (simp only: fstg)
  show "attempts (snd (get_audio_stream e u uc s)) = attempts s @ [''cookies_method'', ''mixed_format_method'']"
    by (simp add: g)
  show "calls (snd (get_audio_stream e u uc s))
            = calls s @ [(audio_opts e ''cookies_method'' True, u),
                         (audio_opts e ''mixed_format_method'' False, u)]"
    by (simp add: g)
qed

theorem resolve_order_witness:
  "cookies_file_present scenario_env
   \<and> status (method_outcome scenario_env ''https://youtu.be/abc123'' ''cookies_method'' True 0) \<noteq> ''success''
   \<and> status (method_outcome scenario_env ''https://youtu.be/abc123'' ''mixed_format_method'' False 1) = ''success''
   \<and> method_used (fst (get_audio_stream scenario_env ''https://youtu.be/abc123'' True empty_state))
        = Val ''mixed_format_method''
   \<and> attempts (snd (get_audio_stream scenario_env ''https://youtu.be/abc123'' True empty_state))
        = [''cookies_method'', ''mixed_format_method'']"
proof -
  have h: "True \<and> cookies_file_present scenario_env
    \<and> status (method_outcome scenario_env ''https://youtu.be/abc123'' ''cookies_method'' True
         (length (calls empty_state))) \<noteq> ''success''
    \<and> status (method_outcome scenario_env ''https://youtu.be/abc123'' ''mixed_format_method'' False
         (Suc (length (calls empty_state)))) = ''success''"
    by (simp add: scenario_present scenario_m1 scenario_m2 error_result_def)
  from resolve_order[of scenario_env "''https://youtu.be/abc123''" True empty_state] h
  have "method_used (fst (get_audio_stream scenario_env ''https://youtu.be/abc123'' True empty_state))
        = Val ''mixed_format_method''
     \<and> attempts (snd (get_audio_stream scenario_env ''https://youtu.be/abc123'' True empty_state))
        = attempts empty_state @ [''cookies_method'', ''mixed_format_method'']"
    by blast
  then show ?thesis using h by (simp add: empty_state_def)
qed

lemma status_outcome:
  "status (method_outcome e u m c n) \<noteq> ''success'' \<Longrightarrow> status (method_outcome e u m c n) = ''error''"
  using status_audio_result[of "extract_video_id e u" m] by (auto simp: method_outcome_def)

lemma message_outcome:
  "status (method_outcome e u m c n) \<noteq> ''success'' \<Longrightarrow> \<exists>t. message (method_outcome e u m c n) = Val t"
  by (auto simp: method_outcome_def audio_result_def error_result_def
      split: probe.splits option.splits field.splits)

lemma fallbacks_all_fail:
  assumes "status (method_outcome e u ''mixed_format_method'' False (length (calls s))) \<noteq> ''success''"
    and "status (method_outcome e u ''dash_method'' False (length (calls s) + 1)) \<noteq> ''success''"
  shows "fst (audio_fallbacks e u (extract_video_id e u) s)
     = method_outcome e u ''generic_method'' False (length (calls s) + 2)"
  using assms
  by (simp add: audio_fallbacks_def Let_def case_prod_beta try_fst try_snd)

text \<open>
  Claim C6. When every method of an audio resolution fails, the result returned is the
  result of the generic method, the last of the order: its status is the failure status
  and its message is the failure text of that method. This holds for the four methods
  with the cookie method, and for the three remaining ones when the cookie method is not
  part of the order.
\<close>

theorem all_methods_fail:
  "(uc \<and> cookies_file_present e
     \<and> status (method_outcome e u ''cookies_method'' True (length (calls s))) \<noteq> ''success''
     \<and> status (method_outcome e u ''mixed_format_method'' False (length (calls s) + 1)) \<noteq> ''success''
     \<and> status (method_outcome e u ''dash_method'' False (length (calls s) + 2)) \<noteq> ''success''
     \<and> status (method_outcome e u ''generic_method'' False (length (calls s) + 3)) \<noteq> ''success''
    \<longrightarrow> fst (get_audio_stream e u uc s)
          = method_outcome e u ''generic_method'' False (length (calls s) + 3)
      \<and> status (fst (get_audio_stream e u uc s)) = ''error''
      \<and> (\<exists>t. message (fst (get_audio_stream e u uc s)) = Val t
             \<and> message (method_outcome e u ''generic_method'' False (length (calls s) + 3)) = Val t))
   \<and> (\<not> (uc \<and> cookies_file_present e)
     \<and> status (method_outcome e u ''mixed_format_method'' False (length (calls s))) \<noteq> ''success''
     \<and> status (method_outcome e u ''dash_method'' False (length (calls s) + 1)) \<noteq> ''success''
     \<and> status (method_outcome e u ''generic_method'' False (length (calls s) + 2)) \<noteq> ''success''
    \<longrightarrow> fst (get_audio_stream e u uc s)
          = method_outcome e u ''generic_method'' False (length (calls s) + 2)
      \<and> status (fst (get_audio_stream e u uc s)) = ''error''
      \<and> (\<exists>t. message (fst (get_audio_stream e u uc s)) = Val t
             \<and> message (method_outcome e u ''generic_method'' False (length (calls s) + 2)) = Val t))"
proof (intro conjI impI)
  assume a: "uc \<and> cookies_file_present e
     \<and> status (method_outcome e u ''cookies_method'' True (length (calls s))) \<noteq> ''success''
     \<and> status (method_outcome e u ''mixed_format_method'' False (length (calls s) + 1)) \<noteq> ''success''
     \<and> status (method_outcome e u ''dash_method'' False (length (calls s) + 2)) \<noteq> ''success''
     \<and> status (method_outcome e u ''generic_method'' False (length (calls s) + 3)) \<noteq> ''success''"
  let ?s1 = "snd (try_audio_method e u (extract_video_id e u) ''cookies_method'' True s)"
  have len: "length (calls ?s1) = length (calls s) + 1" by (simp add: try_snd)
  have "fst (get_audio_stream e u uc s) = fst (audio_fallbacks e u (extract_video_id e u) ?s1)"
    using a by (simp add: get_audio_stream_def Let_def case_prod_beta try_fst)
  also have "\<dots> = method_outcome e u ''generic_method'' False (length (calls ?s1) + 2)"
    using a by (intro fallbacks_all_fail) (simp_all add: len)
  also have "length (calls ?s1) + 2 = length (calls s) + 3"
    by (simp add: len)
  finally show g: "fst (get_audio_stream e u uc s)
          = method_outcome e u ''generic_method'' False (length (calls s) + 3)" .
  from a have f: "status (method_outcome e u ''generic_method'' False (length (calls s) + 3))
      \<noteq> ''success''"
    by simp
  show "status (fst (get_audio_stream e u uc s)) = ''error''"
    unfolding g using f by (rule status_outcome)
  show "\<exists>t. message (fst (get_audio_stream e u uc s)) = Val t
             \<and> message (method_outcome e u ''generic_method'' False (length (calls s) + 3)) = Val t"
    unfolding g using message_outcome[OF f] by simp
next
  assume a: "\<not> (uc \<and> cookies_file_present e)
     \<and> status (method_outcome e u ''mixed_format_method'' False (length (calls s))) \<noteq> ''success''
     \<and> status (method_outcome e u ''dash_method'' False (length (calls s) + 1)) \<noteq> ''success''
     \<and> status (method_outcome e u ''generic_method'' False (length (calls s) + 2)) \<noteq> ''success''"
  have "fst (get_audio_stream e u uc s) = fst (audio_fallbacks e u (extract_video_id e u) s)"
    using a by (auto simp: get_audio_stream_def Let_def)
  also have "\<dots> = method_outcome e u ''generic_method'' False (length (calls s) + 2)"
    using a by (intro fallbacks_all_fail) simp_all
  finally show g: "fst (get_audio_stream e u uc s)
          = method_outcome e u ''generic_method'' False (length (calls s) + 2)" .
  from a have f: "status (method_outcome e u ''generic_method'' False (length (calls s) + 2))
      \<noteq> ''success''"
    by simp
  show "status (fst (get_audio_stream e u uc s)) = ''error''"
    unfolding g using f by (rule status_outcome)
  show "\<exists>t. message (fst (get_audio_stream e u uc s)) = Val t
             \<and> message (method_outcome e u ''generic_method'' False (length (calls s) + 2)) = Val t"
    unfolding g using message_outcome[OF f] by simp
qed

theorem all_methods_fail_witness:
  "cookies_file_present failing_env
   \<and> status (method_outcome failing_env ''https://youtu.be/abc123'' ''generic_method'' False 3)
        \<noteq> ''success''
   \<and> status (fst (get_audio_stream failing_env ''https://youtu.be/abc123'' True empty_state))
        = ''error''
   \<and> message (fst (get_audio_stream failing_env ''https://youtu.be/abc123'' True empty_state))
        = Val ''generic_method: Sign in to confirm your age''"
proof -
  have p: "cookies_file_present failing_env"
    by (simp add: cookies_file_present_def failing_env_def scenario_config_def)
  have st: "status (method_outcome failing_env ''https://youtu.be/abc123'' m c n) \<noteq> ''success''"
    for m c n
    by (simp add: failing_outcome error_result_def)
  have n0: "length (calls empty_state) = 0" by (simp add: empty_state_def)
  from all_methods_fail[of True failing_env "''https://youtu.be/abc123''" empty_state] p st
  have "fst (get_audio_stream failing_env ''https://youtu.be/abc123'' True empty_state)
      = method_outcome failing_env ''https://youtu.be/abc123'' ''generic_method'' False
          (length (calls empty_state) + 3)"
    by blast
  then show ?thesis using p st
    by (simp add: failing_outcome error_result_def)
qed

text \<open>
  Claim C10. When the caller passes \<^verbatim>\<open>use_cookies=False\<close>, or no cookies file is
  configured (or the configured file does not exist), the cookie method is skipped: it is
  neither announced nor called, the first call to the resolver is the one of the
  mixed-format method, made without a cookie file, and the resolution is exactly the
  chain of methods 2 to 4.
\<close>

theorem cookies_method_skipped:
  "\<not> uc \<or> COOKIES_FILE (cfg e) = None \<or> \<not> cookies_file_present e \<longrightarrow>
     (\<exists>rest. attempts (snd (get_audio_stream e u uc s))
               = attempts s @ ''mixed_format_method'' # rest
            \<and> ''cookies_method'' \<notin> set rest)
   \<and> (\<exists>rest. calls (snd (get_audio_stream e u uc s))
               = calls s @ (audio_opts e ''mixed_format_method'' False, u) # rest)
   \<and> o_cookiefile (audio_opts e ''mixed_format_method'' False) = None
   \<and> fst (get_audio_stream e u uc s) = fst (audio_fallbacks e u (extract_video_id e u) s)"
proof
  assume a: "\<not> uc \<or> COOKIES_FILE (cfg e) = None \<or> \<not> cookies_file_present e"
  have "COOKIES_FILE (cfg e) = None \<Longrightarrow> \<not> cookies_file_present e"
    by (simp add: cookies_file_present_def)
  with a have no: "\<not> (uc \<and> cookies_file_present e)" by blast
  then have g: "get_audio_stream e u uc s = audio_fallbacks e u (extract_video_id e u) s"
    by (auto simp: get_audio_stream_def Let_def)
  let ?f = "audio_fallbacks e u (extract_video_id e u) s"
  have att: "\<exists>rest. attempts (snd ?f) = attempts s @ ''mixed_format_method'' # rest
            \<and> ''cookies_method'' \<notin> set rest"
    by (simp add: audio_fallbacks_def Let_def case_prod_beta try_snd)
  have cal: "\<exists>rest. calls (snd ?f) = calls s @ (audio_opts e ''mixed_format_method'' False, u) # rest"
    by (simp add: audio_fallbacks_def Let_def case_prod_beta try_snd)
  have ck: "o_cookiefile (audio_opts e ''mixed_format_method'' False) = None"
    by (simp add: audio_opts_def)
  show "(\<exists>rest. attempts (snd (get_audio_stream e u uc s))
               = attempts s @ ''mixed_format_method'' # rest
            \<and> ''cookies_method'' \<notin> set rest)
   \<and> (\<exists>rest. calls (snd (get_audio_stream e u uc s))
               = calls s @ (audio_opts e ''mixed_format_method'' False, u) # rest)
   \<and> o_cookiefile (audio_opts e ''mixed_format_method'' False) = None
   \<and> fst (get_audio_stream e u uc s) = fst (audio_fallbacks e u (extract_video_id e u) s)"
    using att cal ck by (simp only: g)
qed

theorem cookies_method_skipped_witness:
  "attempts (snd (get_audio_stream scenario_env ''https://youtu.be/abc123'' False empty_state))
     = [''mixed_format_method'']
   \<and> calls (snd (get_audio_stream scenario_env ''https://youtu.be/abc123'' False empty_state))
     = [(audio_opts scenario_env ''mixed_format_method'' False, ''https://youtu.be/abc123'')]"
proof -
  let ?g = "get_audio_stream scenario_env ''https://youtu.be/abc123'' False empty_state"
  let ?f = "audio_fallbacks scenario_env ''https://youtu.be/abc123''
              (extract_video_id scenario_env ''https://youtu.be/abc123'') empty_state"
  have "snd ?g = snd ?f"
    by (simp add: get_audio_stream_def)
  moreover have "attempts (snd ?f) = [''mixed_format_method'']"
    by (simp add: audio_fallbacks_def case_prod_beta try_fst try_snd scenario_m2 empty_state_def)
  moreover have "calls (snd ?f)
      = [(audio_opts scenario_env ''mixed_format_method'' False, ''https://youtu.be/abc123'')]"
    by (simp add: audio_fallbacks_def case_prod_beta try_fst try_snd scenario_m2 empty_state_def)
  ultimately show ?thesis
    using cookies_method_skipped[of False scenario_env "''https://youtu.be/abc123''" empty_state]
    by simp
qed

text \<open>
  Claim C2 at a concrete input. The filter loop writes the test
  \<^verbatim>\<open>fmt.get('vcodec') == 'none'\<close> for the methods other than the mixed-format one and
  joins it with \<^verbatim>\<open>or method_name != "mixed_format_method"\<close>, which holds for each of
  them. So under the cookie method a candidate with an audio codec and a video codec is
  eligible: when it is the only candidate of the document it is selected, and the result
  has the success status and reports its video codec.
\<close>

theorem cookies_method_selects_video_format:
  "dict_get (acodec (scenario_fmt ''u128'' 128 44100)) = Some ''mp4a.40.2''
   \<and> dict_get (vcodec (scenario_fmt ''u128'' 128 44100)) = Some ''avc1.64001F''
   \<and> suitable_audio ''cookies_method'' (scenario_fmt ''u128'' 128 44100)
   \<and> select_audio ''cookies_method'' [scenario_fmt ''u128'' 128 44100]
       = Some (scenario_fmt ''u128'' 128 44100)
   \<and> status (audio_result (Some ''abc123'') ''cookies_method''
        (Info \<lparr>title = Val ''Song'', duration = Val 200,
               formats = [scenario_fmt ''u128'' 128 44100]\<rparr>)) = ''success''
   \<and> stream_url (audio_result (Some ''abc123'') ''cookies_method''
        (Info \<lparr>title = Val ''Song'', duration = Val 200,
               formats = [scenario_fmt ''u128'' 128 44100]\<rparr>)) = Val ''u128''
   \<and> r_format (audio_result (Some ''abc123'') ''cookies_method''
        (Info \<lparr>title = Val ''Song'', duration = Val 200,
               formats = [scenario_fmt ''u128'' 128 44100]\<rparr>))
       = Val (AudioOut
           \<lparr>a_ext = Some ''mp4'', a_abr = Some 128, a_asr = Some 44100,
            a_vcodec = Some ''avc1.64001F'', a_acodec = Some ''mp4a.40.2'', a_filesize = None,
            a_protocol = Some ''https'', a_format_note = Some ''''\<rparr>)"
  by (simp add: audio_result_def select_audio_def suitable_audio_def scenario_fmt_def
      sort_reverse_def audio_format_out_def)

text \<open>
  Claim C4, as stated, fails: a candidate whose bitrate is present and zero is ranked by
  its total bitrate, so it is selected ahead of a candidate that is greater under the
  ordering of the claim.
\<close>

theorem claimed_ranking_counterexample:
  "select_audio ''mixed_format_method'' [zero_abr_fmt, scenario_fmt ''u128'' 128 44100]
     = Some zero_abr_fmt
   \<and> suitable_audio ''mixed_format_method'' (scenario_fmt ''u128'' 128 44100)
   \<and> claimed_audio_key zero_abr_fmt < claimed_audio_key (scenario_fmt ''u128'' 128 44100)"
  by (simp add: select_audio_def suitable_audio_def scenario_fmt_def zero_abr_fmt_def
      sort_reverse_def audio_key_def py_or_def claimed_audio_key_def)

text \<open>
  Claim C4, amended. The ranking key is the bitrate, or the total bitrate when the bitrate
  is absent, null or zero; then the sample rate; then the file size; each number counts as
  zero when it is absent or null. Whenever some candidate is eligible, the selection is an
  eligible candidate whose key is greatest, the first such candidate in the order of the
  list. In particular, of two eligible candidates with (abr 128, asr 44100) and
  (abr 192, asr 48000), in either order, the second is selected, and when it has a URL the
  result has the success status and carries that URL.
\<close>

theorem audio_ranking:
  "audio_key x = amended_audio_key x
   \<and> (filter (suitable_audio m) fs \<noteq> [] \<longrightarrow>
        (\<exists>b. select_audio m fs = Some b
           \<and> b \<in> set (filter (suitable_audio m) fs)
           \<and> (\<forall>c\<in>set (filter (suitable_audio m) fs). amended_audio_key c \<le> amended_audio_key b)
           \<and> hd (filter (\<lambda>c. amended_audio_key c = amended_audio_key b)
                   (filter (suitable_audio m) fs)) = b))
   \<and> (abr c1 = Val 128 \<and> asr c1 = Val 44100 \<and> abr c2 = Val 192 \<and> asr c2 = Val 48000
       \<and> suitable_audio m c1 \<and> suitable_audio m c2 \<and> url c2 \<noteq> Absent \<longrightarrow>
        select_audio m [c1, c2] = Some c2 \<and> select_audio m [c2, c1] = Some c2
        \<and> status (audio_result vid m (Info (i\<lparr>formats := [c1, c2]\<rparr>))) = ''success''
        \<and> stream_url (audio_result vid m (Info (i\<lparr>formats := [c1, c2]\<rparr>))) = url c2)"
proof (intro conjI impI)
  show "audio_key x = amended_audio_key x" by (rule audio_key_amended)
next
  assume ne: "filter (suitable_audio m) fs \<noteq> []"
  then obtain b where b: "select_audio m fs = Some b"
    using select_audio_None[of m fs] by (cases "select_audio m fs") auto
  from select_audio_Some[OF b]
  show "\<exists>b. select_audio m fs = Some b
           \<and> b \<in> set (filter (suitable_audio m) fs)
           \<and> (\<forall>c\<in>set (filter (suitable_audio m) fs). amended_audio_key c \<le> amended_audio_key b)
           \<and> hd (filter (\<lambda>c. amended_audio_key c = amended_audio_key b)
                   (filter (suitable_audio m) fs)) = b"
    using b unfolding audio_key_amended by blast
next
  assume a: "abr c1 = Val 128 \<and> asr c1 = Val 44100 \<and> abr c2 = Val 192 \<and> asr c2 = Val 48000
       \<and> suitable_audio m c1 \<and> suitable_audio m c2 \<and> url c2 \<noteq> Absent"
  have k1: "fst (audio_key c1) = 128" using a by (simp add: audio_key_def py_or_def)
  have k2: "fst (audio_key c2) = 192" using a by (simp add: audio_key_def py_or_def)
  have lt: "audio_key c1 < audio_key c2"
    using k1 k2 by (cases "audio_key c1"; cases "audio_key c2") simp
  show s12: "select_audio m [c1, c2] = Some c2"
    using a lt by (simp add: select_audio_first_max)
  show "select_audio m [c2, c1] = Some c2"
    using a lt by (simp add: select_audio_first_max)
  show "status (audio_result vid m (Info (i\<lparr>formats := [c1, c2]\<rparr>))) = ''success''"
    using a s12 by (cases "url c2") (simp_all add: audio_result_def)
  show "stream_url (audio_result vid m (Info (i\<lparr>formats := [c1, c2]\<rparr>))) = url c2"
    using a s12 by (cases "url c2") (simp_all add: audio_result_def)
qed

theorem audio_ranking_witness:
  "filter (suitable_audio ''mixed_format_method'')
      [scenario_fmt ''u128'' 128 44100, scenario_fmt ''u192'' 192 48000] \<noteq> []
   \<and> select_audio ''mixed_format_method''
        [scenario_fmt ''u128'' 128 44100, scenario_fmt ''u192'' 192 48000]
      = Some (scenario_fmt ''u192'' 192 48000)
   \<and> status (method_outcome scenario_env ''https://youtu.be/abc123'' ''mixed_format_method'' False 1)
      = ''success''"
proof -
  let ?c1 = "scenario_fmt ''u128'' 128 44100" and ?c2 = "scenario_fmt ''u192'' 192 48000"
  have h: "abr ?c1 = Val 128 \<and> asr ?c1 = Val 44100 \<and> abr ?c2 = Val 192 \<and> asr ?c2 = Val 48000
       \<and> suitable_audio ''mixed_format_method'' ?c1 \<and> suitable_audio ''mixed_format_method'' ?c2
       \<and> url ?c2 \<noteq> Absent"
    by (simp add: scenario_fmt_def suitable_audio_def)
  from audio_ranking[of ?c1 "''mixed_format_method''" "[?c1, ?c2]" ?c1 ?c2] h
  have "select_audio ''mixed_format_method'' [?c1, ?c2] = Some ?c2" by blast
  then show ?thesis using h by (simp add: scenario_m2)
qed

text \<open>
  Claim C5, as stated, fails: a candidate without bitrate and sample rate is reported with
  the bitrate 128 and the sample rate 44100.
\<close>

theorem fabricated_defaults_counterexample:
  "abr bare_fmt = Absent \<and> asr bare_fmt = Absent
   \<and> status (audio_result (Some ''abc123'') ''dash_method''
        (Info \<lparr>title = Val ''Song'', duration = Val 200, formats = [bare_fmt]\<rparr>)) = ''success''
   \<and> r_format (audio_result (Some ''abc123'') ''dash_method''
        (Info \<lparr>title = Val ''Song'', duration = Val 200, formats = [bare_fmt]\<rparr>))
      = Val (AudioOut
          \<lparr>a_ext = Some ''m4a'', a_abr = Some 128, a_asr = Some 44100, a_vcodec = Some ''none'',
           a_acodec = Some ''opus'', a_filesize = None, a_protocol = Some '''',
           a_format_note = Some ''''\<rparr>)"
  by (simp add: audio_result_def select_audio_def suitable_audio_def bare_fmt_def
      sort_reverse_def audio_format_out_def)

text \<open>
  Claim C5, amended. A successful result reports the format that was selected, with its
  URL. A number the candidate has is reported as it is, and an explicit null as null. An
  absent file size, height, width or frame rate is reported as null. An absent bitrate is
  reported as 128 and an absent sample rate as 44100.
\<close>

theorem reported_format_fields:
  "(status (audio_result vid m (Info i)) = ''success'' \<longrightarrow>
      (\<exists>b. select_audio m (formats i) = Some b
         \<and> stream_url (audio_result vid m (Info i)) = url b
         \<and> r_format (audio_result vid m (Info i)) = Val (AudioOut (audio_format_out b))))
   \<and> a_abr (audio_format_out b)
       = (case abr b of Absent \<Rightarrow> Some 128 | Null \<Rightarrow> None | Val v \<Rightarrow> Some v)
   \<and> a_asr (audio_format_out b)
       = (case asr b of Absent \<Rightarrow> Some 44100 | Null \<Rightarrow> None | Val v \<Rightarrow> Some v)
   \<and> a_filesize (audio_format_out b)
       = (case filesize b of Absent \<Rightarrow> None | Null \<Rightarrow> None | Val v \<Rightarrow> Some v)
   \<and> (status (video_result e u v (Info i)) = ''success'' \<longrightarrow>
      (\<exists>b. select_video (formats i) = Some b
         \<and> stream_url (video_result e u v (Info i)) = url b
         \<and> r_format (video_result e u v (Info i)) = Val (VideoOut (video_format_out b))))
   \<and> v_height (video_format_out b) = dict_get (height b)
   \<and> v_width (video_format_out b) = dict_get (width b)
   \<and> v_fps (video_format_out b) = dict_get (fps b)
   \<and> v_filesize (video_format_out b) = dict_get (filesize b)"
proof (intro conjI impI)
  assume "status (audio_result vid m (Info i)) = ''success''"
  then show "\<exists>b. select_audio m (formats i) = Some b
         \<and> stream_url (audio_result vid m (Info i)) = url b
         \<and> r_format (audio_result vid m (Info i)) = Val (AudioOut (audio_format_out b))"
    by (auto simp: audio_result_def error_result_def split: option.splits field.splits)
next
  assume "status (video_result e u v (Info i)) = ''success''"
  then show "\<exists>b. select_video (formats i) = Some b
         \<and> stream_url (video_result e u v (Info i)) = url b
         \<and> r_format (video_result e u v (Info i)) = Val (VideoOut (video_format_out b))"
    by (auto simp: video_result_def stream_info_error_def error_result_def
        split: option.splits field.splits)
qed (simp_all add: audio_format_out_def video_format_out_def split: field.splits)

theorem reported_format_fields_witness:
  "status (audio_result (Some ''abc123'') ''mixed_format_method''
      (Info \<lparr>title = Val ''Song'', duration = Val 200,
             formats = [scenario_fmt ''u192'' 192 48000]\<rparr>)) = ''success''
   \<and> r_format (audio_result (Some ''abc123'') ''mixed_format_method''
      (Info \<lparr>title = Val ''Song'', duration = Val 200,
             formats = [scenario_fmt ''u192'' 192 48000]\<rparr>))
     = Val (AudioOut (audio_format_out (scenario_fmt ''u192'' 192 48000)))
   \<and> a_abr (audio_format_out (scenario_fmt ''u192'' 192 48000)) = Some 192
   \<and> a_filesize (audio_format_out (scenario_fmt ''u192'' 192 48000)) = None"
proof -
  let ?i = "\<lparr>title = Val ''Song'', duration = Val 200, formats = [scenario_fmt ''u192'' 192 48000]\<rparr>"
  have sel: "select_audio ''mixed_format_method'' (formats ?i) = Some (scenario_fmt ''u192'' 192 48000)"
    by (simp add: select_audio_def suitable_audio_def scenario_fmt_def sort_reverse_def)
  have st: "status (audio_result (Some ''abc123'') ''mixed_format_method'' (Info ?i)) = ''success''"
    by (simp add: audio_result_def select_audio_def suitable_audio_def scenario_fmt_def
        sort_reverse_def)
  from reported_format_fields[of "Some ''abc123''" "''mixed_format_method''" ?i
      "scenario_fmt ''u192'' 192 48000"] st sel
  have "r_format (audio_result (Some ''abc123'') ''mixed_format_method'' (Info ?i))
      = Val (AudioOut (audio_format_out (scenario_fmt ''u192'' 192 48000)))
    \<and> a_abr (audio_format_out (scenario_fmt ''u192'' 192 48000))
       = (case abr (scenario_fmt ''u192'' 192 48000) of
            Absent \<Rightarrow> Some 128 | Null \<Rightarrow> None | Val v \<Rightarrow> Some v)
    \<and> a_filesize (audio_format_out (scenario_fmt ''u192'' 192 48000))
       = (case filesize (scenario_fmt ''u192'' 192 48000) of
            Absent \<Rightarrow> None | Null \<Rightarrow> None | Val v \<Rightarrow> Some v)"
    by auto
  then show ?thesis using st by (simp add: scenario_fmt_def)
qed

text \<open>
  Claim C3 at a concrete request: for the quality \<^verbatim>\<open>low\<close> the options ask the
  resolver for a height of at most 360, and of the two formats of the document,
  one 360 lines high and one 1080, the result carries the one of 1080 lines.
\<close>

theorem low_quality_selects_1080:
  "o_format (get_ydl_options video_env ''video'' ''low'') = Some ''best[height<=360]''
   \<and> status (fst (get_stream_info video_env 0 ''https://youtu.be/abc123'' ''video'' ''low'' empty_state))
      = ''success''
   \<and> stream_url (fst (get_stream_info video_env 0 ''https://youtu.be/abc123'' ''video'' ''low'' empty_state))
      = Val ''u1080''
   \<and> r_format (fst (get_stream_info video_env 0 ''https://youtu.be/abc123'' ''video'' ''low'' empty_state))
      = Val (VideoOut \<lparr>v_ext = Some ''mp4'', v_height = Some 1080, v_width = Some 1920,
                       v_fps = Some 30, v_filesize = None, v_format_note = Some ''''\<rparr>)"
  by (simp add: get_ydl_options_def get_stream_info_def video_env_def cache_get_def empty_state_def
      video_result_def select_video_def video_fmt_def sort_reverse_def video_key_def
      video_format_out_def Let_def)

text \<open>
  Claim C7. Only results with the success status are cached. Every entry that a call of
  the cached entry point or of the audio endpoint adds to the cache holds a result with
  the success status; so in every reachable state all cached results have it, and a
  lookup that hits returns one of them. The audio endpoint, moreover, does not use a
  cached result whose status is not success: it runs the audio methods instead.
\<close>

theorem only_success_cached:
  "(\<forall>en\<in>set (cache (snd (get_stream_info e now u vt q s))).
       en \<in> set (cache s) \<or> status (fst (snd en)) = ''success'')
   \<and> (\<forall>en\<in>set (cache (snd (stream_audio e now u fr s))).
       en \<in> set (cache s) \<or> status (fst (snd en)) = ''success'')
   \<and> (reachable e s \<longrightarrow>
        (\<forall>en\<in>set (cache s). status (fst (snd en)) = ''success'')
        \<and> (\<forall>r. fst (cache_get e now k s) = Some r \<longrightarrow> status r = ''success''))
   \<and> (\<not> fr \<and> fst (cache_get e now (''audio:'' @ str_of (extract_video_id e u)) s) = Some r'
        \<and> status r' \<noteq> ''success'' \<longrightarrow>
        cached_or_resolved e now u fr s
          = get_audio_stream e u True
              (snd (cache_get e now (''audio:'' @ str_of (extract_video_id e u)) s)))"
proof (intro conjI impI ballI allI)
  fix en assume "en \<in> set (cache (snd (get_stream_info e now u vt q s)))"
  then show "en \<in> set (cache s) \<or> status (fst (snd en)) = ''success''"
    by (rule get_stream_info_writes)
next
  fix en assume "en \<in> set (cache (snd (stream_audio e now u fr s)))"
  then show "en \<in> set (cache s) \<or> status (fst (snd en)) = ''success''"
    by (rule stream_audio_writes)
next
  fix en assume "reachable e s" "en \<in> set (cache s)"
  then show "status (fst (snd en)) = ''success''"
    using reachable_cache_success by blast
next
  fix r assume re: "reachable e s" and hit: "fst (cache_get e now k s) = Some r"
  from cache_get_hit[OF hit] obtain t where "(k, r, t) \<in> set (cache s)" by blast
  with reachable_cache_success[OF re] show "status r = ''success''" by fastforce
next
  assume "\<not> fr \<and> fst (cache_get e now (''audio:'' @ str_of (extract_video_id e u)) s) = Some r'
        \<and> status r' \<noteq> ''success''"
  then show "cached_or_resolved e now u fr s
          = get_audio_stream e u True
              (snd (cache_get e now (''audio:'' @ str_of (extract_video_id e u)) s))"
    by (simp add: cached_or_resolved_def Let_def case_prod_beta)
qed

theorem only_success_cached_witness:
  "reachable scenario_env
     (snd (get_stream_info scenario_env 0 ''https://youtu.be/abc123'' ''audio'' ''best'' empty_state))
   \<and> map fst
       (cache (snd (get_stream_info scenario_env 0 ''https://youtu.be/abc123'' ''audio'' ''best''
          empty_state))) = [''abc123:audio:best'']
   \<and> status (fst (snd (hd (cache
        (snd (get_stream_info scenario_env 0 ''https://youtu.be/abc123'' ''audio'' ''best''
          empty_state)))))) = ''success''"
proof -
  let ?s = "snd (get_stream_info scenario_env 0 ''https://youtu.be/abc123'' ''audio'' ''best''
      empty_state)"
  have re: "reachable scenario_env ?s"
    by (intro reachable.stream_info reachable.start)
  have ks: "map fst (cache ?s) = [''abc123:audio:best'']"
    by (simp add: scenario_stream_info_cache)
  then have "hd (cache ?s) \<in> set (cache ?s)" by (cases "cache ?s") auto
  with re only_success_cached[of scenario_env 0 "''https://youtu.be/abc123''" "''audio''"
      "''best''" ?s False "''k''"]
  have "status (fst (snd (hd (cache ?s)))) = ''success''" by blast
  with re ks show ?thesis by blast
qed

lemma audio_result_selection:
  "r_format (audio_result vid m (Info i))
     = (case select_audio m (formats i) of
          None \<Rightarrow> Absent
        | Some b \<Rightarrow> (case url b of Absent \<Rightarrow> Absent | Null \<Rightarrow> Val (AudioOut (audio_format_out b))
                     | Val a \<Rightarrow> Val (AudioOut (audio_format_out b))))"
  "stream_url (audio_result vid m (Info i))
     = (case select_audio m (formats i) of None \<Rightarrow> Absent | Some b \<Rightarrow> url b)"
  by (simp_all add: audio_result_def error_result_def split: option.splits field.splits)

lemma video_result_selection:
  "r_format (video_result e u vid (Info i))
     = (case select_video (formats i) of
          None \<Rightarrow> Absent
        | Some b \<Rightarrow> (case url b of Absent \<Rightarrow> Absent | Null \<Rightarrow> Val (VideoOut (video_format_out b))
                     | Val a \<Rightarrow> Val (VideoOut (video_format_out b))))"
  "stream_url (video_result e u vid (Info i))
     = (case select_video (formats i) of None \<Rightarrow> Absent | Some b \<Rightarrow> url b)"
  by (simp_all add: video_result_def stream_info_error_def error_result_def
      split: option.splits field.splits)

text \<open>
  Claim C8. The selection is a function of the method (for audio) and of the list of
  candidates alone: it is the first candidate, in list order, among the eligible ones
  with the greatest key. Two resolutions that receive the same candidates, whatever
  their environment, state, URL or identifier, select the same format and the same URL.
\<close>

theorem selection_deterministic:
  "select_audio m fs =
     (case filter (suitable_audio m) fs of
        [] \<Rightarrow> None | x # xs \<Rightarrow> Some (first_max audio_key x xs))
   \<and> select_video fs =
     (case filter (\<lambda>f. dict_get (vcodec f) \<noteq> Some ''none'') fs of
        [] \<Rightarrow> None | x # xs \<Rightarrow> Some (first_max video_key x xs))
   \<and> hd (filter (\<lambda>c. audio_key c = audio_key (first_max audio_key x xs)) (x # xs))
       = first_max audio_key x xs
   \<and> hd (filter (\<lambda>c. video_key c = video_key (first_max video_key x xs)) (x # xs))
       = first_max video_key x xs
   \<and> (extract_info e1 (length (calls s1)) (audio_opts e1 m c1) u1 = Info i1
       \<and> extract_info e2 (length (calls s2)) (audio_opts e2 m c2) u2 = Info i2
       \<and> formats i1 = formats i2 \<longrightarrow>
        r_format (fst (try_audio_method e1 u1 v1 m c1 s1))
          = r_format (fst (try_audio_method e2 u2 v2 m c2 s2))
        \<and> stream_url (fst (try_audio_method e1 u1 v1 m c1 s1))
          = stream_url (fst (try_audio_method e2 u2 v2 m c2 s2)))
   \<and> (formats i1 = formats i2 \<longrightarrow>
        r_format (video_result e1 u1 w1 (Info i1)) = r_format (video_result e2 u2 w2 (Info i2))
        \<and> stream_url (video_result e1 u1 w1 (Info i1))
          = stream_url (video_result e2 u2 w2 (Info i2)))"
proof (intro conjI impI)
  show "select_audio m fs =
     (case filter (suitable_audio m) fs of
        [] \<Rightarrow> None | x # xs \<Rightarrow> Some (first_max audio_key x xs))"
    by (rule select_audio_first_max)
  show "select_video fs =
     (case filter (\<lambda>f. dict_get (vcodec f) \<noteq> Some ''none'') fs of
        [] \<Rightarrow> None | x # xs \<Rightarrow> Some (first_max video_key x xs))"
    by (rule select_video_first_max)
  show "hd (filter (\<lambda>c. audio_key c = audio_key (first_max audio_key x xs)) (x # xs))
       = first_max audio_key x xs"
    by (rule first_max_first)
  show "hd (filter (\<lambda>c. video_key c = video_key (first_max video_key x xs)) (x # xs))
       = first_max video_key x xs"
    by (rule first_max_first)
next
  assume a: "extract_info e1 (length (calls s1)) (audio_opts e1 m c1) u1 = Info i1
       \<and> extract_info e2 (length (calls s2)) (audio_opts e2 m c2) u2 = Info i2
       \<and> formats i1 = formats i2"
  have t1: "fst (try_audio_method e1 u1 v1 m c1 s1) = audio_result v1 m (Info i1)"
    using a by (simp add: try_audio_method_def Let_def)
  have t2: "fst (try_audio_method e2 u2 v2 m c2 s2) = audio_result v2 m (Info i2)"
    using a by (simp add: try_audio_method_def Let_def)
  show "r_format (fst (try_audio_method e1 u1 v1 m c1 s1))
          = r_format (fst (try_audio_method e2 u2 v2 m c2 s2))"
    using a unfolding t1 t2 audio_result_selection by simp
  show "stream_url (fst (try_audio_method e1 u1 v1 m c1 s1))
          = stream_url (fst (try_audio_method e2 u2 v2 m c2 s2))"
    using a unfolding t1 t2 audio_result_selection by simp
next
  assume a: "formats i1 = formats i2"
  show "r_format (video_result e1 u1 w1 (Info i1)) = r_format (video_result e2 u2 w2 (Info i2))"
    using a unfolding video_result_selection by simp
  show "stream_url (video_result e1 u1 w1 (Info i1))
          = stream_url (video_result e2 u2 w2 (Info i2))"
    using a unfolding video_result_selection by simp
qed

theorem selection_deterministic_witness:
  "extract_info scenario_env (length (calls empty_state))
       (audio_opts scenario_env ''mixed_format_method'' False) ''https://youtu.be/abc123''
     = extract_info scenario_env (length (calls (empty_state\<lparr>hits := 7\<rparr>)))
       (audio_opts scenario_env ''mixed_format_method'' True) ''https://youtu.be/other''
   \<and> stream_url (fst (try_audio_method scenario_env ''https://youtu.be/abc123'' (Some ''abc123'')
        ''mixed_format_method'' False empty_state)) = Val ''u192''
   \<and> stream_url (fst (try_audio_method scenario_env ''https://youtu.be/other'' None
        ''mixed_format_method'' True (empty_state\<lparr>hits := 7\<rparr>))) = Val ''u192''"
proof -
  let ?i = "\<lparr>title = Val ''Song'', duration = Val 200,
             formats = [scenario_fmt ''u128'' 128 44100, scenario_fmt ''u192'' 192 48000]\<rparr>"
  have p1: "extract_info scenario_env (length (calls empty_state))
       (audio_opts scenario_env ''mixed_format_method'' False) ''https://youtu.be/abc123'' = Info ?i"
    by (simp add: scenario_env_def audio_opts_def)
  have p2: "extract_info scenario_env (length (calls (empty_state\<lparr>hits := 7\<rparr>)))
       (audio_opts scenario_env ''mixed_format_method'' True) ''https://youtu.be/other'' = Info ?i"
    by (simp add: scenario_env_def audio_opts_def)
  have r1: "stream_url (fst (try_audio_method scenario_env ''https://youtu.be/abc123''
        (Some ''abc123'') ''mixed_format_method'' False empty_state)) = Val ''u192''"
    using scenario_m2[of "''https://youtu.be/abc123''" "length (calls empty_state)"]
    by (simp add: try_audio_method_def method_outcome_def Let_def scenario_env_def)
  from selection_deterministic[of "''mixed_format_method''" "[]" bare_fmt "[]" scenario_env
      empty_state False "''https://youtu.be/abc123''" ?i scenario_env "empty_state\<lparr>hits := 7\<rparr>"
      True "''https://youtu.be/other''" ?i "Some ''abc123''" None] p1 p2
  have "stream_url (fst (try_audio_method scenario_env ''https://youtu.be/abc123''
        (Some ''abc123'') ''mixed_format_method'' False empty_state))
      = stream_url (fst (try_audio_method scenario_env ''https://youtu.be/other'' None
        ''mixed_format_method'' True (empty_state\<lparr>hits := 7\<rparr>)))"
    by blast
  with r1 p1 p2 show ?thesis by simp
qed

text \<open>
  Claim C9. Let a client whose recorded timestamps, if any, are all older than the window
  make as many checks as the maximum allows (a positive number), the first at \<open>t1\<close> and
  the others within the window that starts there. All of them are admitted and recorded. A
  further check within that window is rejected and leaves the state as it is: nothing is
  recorded, and the middleware answers 429 without running the handler. Once the window
  has elapsed, a check is admitted again.
\<close>

theorem rate_window:
  assumes "0 < MAX_REQUESTS_PER_MINUTE (cfg e)"
    and "length (t1 # ts) = MAX_REQUESTS_PER_MINUTE (cfg e)"
    and "\<forall>t\<in>set ts. t1 \<le> t \<and> t \<le> t1 + RATE_LIMIT_WINDOW (cfg e)"
    and "\<forall>x\<in>set (history s c). x < t1 - RATE_LIMIT_WINDOW (cfg e)"
  shows "fst (check_all e c (t1 # ts) s) = replicate (MAX_REQUESTS_PER_MINUTE (cfg e)) True
     \<and> history (snd (check_all e c (t1 # ts) s)) c = t1 # ts
     \<and> (\<forall>t. t1 \<le> t \<and> t \<le> t1 + RATE_LIMIT_WINDOW (cfg e) \<longrightarrow>
           check_limit e t c (snd (check_all e c (t1 # ts) s))
             = (False, snd (check_all e c (t1 # ts) s)))
     \<and> (\<forall>t. t1 \<le> t \<and> t \<le> t1 + RATE_LIMIT_WINDOW (cfg e) \<longrightarrow>
           rate_limit_middleware e t (Some c) call_next (snd (check_all e c (t1 # ts) s))
             = (HTTPException 429 ''Rate limit exceeded'', snd (check_all e c (t1 # ts) s)))
     \<and> (\<forall>t. t1 + RATE_LIMIT_WINDOW (cfg e) < t \<longrightarrow>
           fst (check_limit e t c (snd (check_all e c (t1 # ts) s))) = True)"
proof -
  let ?s1 = "s\<lparr>requests := (requests s)(c \<mapsto> [t1])\<rparr>"
  have first: "check_limit e t1 c s = (True, ?s1)"
    using assms(4,1) by (rule check_limit_first)
  have r1: "requests ?s1 c = Some [t1]" by simp
  have lo: "\<forall>x\<in>set [t1]. t1 \<le> x" by simp
  have len: "length [t1] + length ts \<le> MAX_REQUESTS_PER_MINUTE (cfg e)"
    using assms(2) by simp
  note rest = check_all_admit[OF r1 lo assms(3) len]
  have rest1: "fst (check_all e c ts ?s1) = replicate (length ts) True"
    using rest by (rule conjunct1)
  have "snd (check_all e c ts ?s1) = ?s1\<lparr>requests := (requests ?s1)(c \<mapsto> [t1] @ ts)\<rparr>"
    using rest by (rule conjunct2)
  then have req: "requests (snd (check_all e c ts ?s1)) c = Some (t1 # ts)"
    by simp
  have ca: "check_all e c (t1 # ts) s
      = (True # fst (check_all e c ts ?s1), snd (check_all e c ts ?s1))"
    by (simp add: first case_prod_beta)
  have a: "fst (check_all e c (t1 # ts) s) = replicate (MAX_REQUESTS_PER_MINUTE (cfg e)) True"
    unfolding ca assms(2)[symmetric] using rest1 by simp
  have sn: "snd (check_all e c (t1 # ts) s) = snd (check_all e c ts ?s1)"
    unfolding ca by simp
  have b: "history (snd (check_all e c (t1 # ts) s)) c = t1 # ts"
    unfolding sn using req by (simp add: history_def)
  have c: "check_limit e t c (snd (check_all e c (t1 # ts) s))
             = (False, snd (check_all e c (t1 # ts) s))"
    if t: "t1 \<le> t \<and> t \<le> t1 + RATE_LIMIT_WINDOW (cfg e)" for t
  proof -
    have "\<forall>x\<in>set (t1 # ts). t - RATE_LIMIT_WINDOW (cfg e) \<le> x"
      using t assms(3) by fastforce
    moreover have "MAX_REQUESTS_PER_MINUTE (cfg e) \<le> length (t1 # ts)"
      using assms(2) by simp
    ultimately show ?thesis
      unfolding sn using req by (intro check_limit_reject)
  qed
  have d: "fst (check_limit e t c (snd (check_all e c (t1 # ts) s))) = True"
    if t: "t1 + RATE_LIMIT_WINDOW (cfg e) < t" for t
  proof -
    have "t1 < t - RATE_LIMIT_WINDOW (cfg e)" using t by simp
    moreover have "length (t1 # ts) \<le> MAX_REQUESTS_PER_MINUTE (cfg e)"
      using assms(2) by simp
    ultimately show ?thesis
      unfolding sn using req by (intro check_limit_after)
  qed
  have m: "rate_limit_middleware e t (Some c) call_next (snd (check_all e c (t1 # ts) s))
             = (HTTPException 429 ''Rate limit exceeded'', snd (check_all e c (t1 # ts) s))"
    if t: "t1 \<le> t \<and> t \<le> t1 + RATE_LIMIT_WINDOW (cfg e)" for t
    using c[OF t] by (rule middleware_reject)
  show ?thesis using a b c d m by blast
qed

theorem rate_window_witness:
  "0 < MAX_REQUESTS_PER_MINUTE (cfg small_env)
   \<and> length [10, 11, 12 :: int] = MAX_REQUESTS_PER_MINUTE (cfg small_env)
   \<and> fst (check_all small_env ''10.0.0.7'' [10, 11, 12] empty_state) = [True, True, True]
   \<and> fst (check_limit small_env 13 ''10.0.0.7''
        (snd (check_all small_env ''10.0.0.7'' [10, 11, 12] empty_state))) = False
   \<and> fst (check_limit small_env 16 ''10.0.0.7''
        (snd (check_all small_env ''10.0.0.7'' [10, 11, 12] empty_state))) = True"
proof -
  have m: "MAX_REQUESTS_PER_MINUTE (cfg small_env) = 3" "RATE_LIMIT_WINDOW (cfg small_env) = 5"
    by (simp_all add: small_env_def)
  have h1: "0 < MAX_REQUESTS_PER_MINUTE (cfg small_env)" by (simp add: m)
  have h2: "length (10 # [11, 12 :: int]) = MAX_REQUESTS_PER_MINUTE (cfg small_env)"
    by (simp add: m)
  have h3: "\<forall>t\<in>set [11, 12 :: int]. 10 \<le> t \<and> t \<le> 10 + RATE_LIMIT_WINDOW (cfg small_env)"
    by (simp add: m)
  have h4: "\<forall>x\<in>set (history empty_state ''10.0.0.7'').
      x < 10 - RATE_LIMIT_WINDOW (cfg small_env)"
    by (simp add: history_def empty_state_def)
  note w = rate_window[OF h1 h2 h3 h4]
  have a: "fst (check_all small_env ''10.0.0.7'' [10, 11, 12] empty_state) = [True, True, True]"
    using w by (simp add: m numeral_3_eq_3)
  have "(10::int) \<le> 13 \<and> 13 \<le> 10 + RATE_LIMIT_WINDOW (cfg small_env)" by (simp add: m)
  with w have "check_limit small_env 13 ''10.0.0.7''
        (snd (check_all small_env ''10.0.0.7'' [10, 11, 12] empty_state))
      = (False, snd (check_all small_env ''10.0.0.7'' [10, 11, 12] empty_state))"
    by blast
  then have b: "fst (check_limit small_env 13 ''10.0.0.7''
        (snd (check_all small_env ''10.0.0.7'' [10, 11, 12] empty_state))) = False"
    by simp
  have "10 + RATE_LIMIT_WINDOW (cfg small_env) < 16" by (simp add: m)
  with w have c: "fst (check_limit small_env 16 ''10.0.0.7''
        (snd (check_all small_env ''10.0.0.7'' [10, 11, 12] empty_state))) = True"
    by blast
  show ?thesis using h1 h2 a b c by simp
qed

end
